theory Spec2Isabelle
  imports Complex_Main "HOL-Library.AList"
begin

section \<open>JavaScript values and Immutable collections\<close>

text \<open>
  The application state is an Immutable.Map whose values are dynamically typed. A value
  is one of the JavaScript primitives, an Immutable.List or an Immutable.Map with string
  keys, or a plain JavaScript array or object. Maps and objects are association lists in
  insertion order with pairwise distinct keys. Numbers are the integers the program
  stores (timestamps, counts, flags); the floating-point score vectors of the classifier
  only pass through the state and are handled by the external classifier functions below.
\<close>

datatype jsval =
    JUndefined
  | JNull
  | JBool bool
  | JNum int
  | JStr string
  | JList "jsval list"                  \<comment> \<open>Immutable.List\<close>
  | JMap "(string \<times> jsval) list"      \<comment> \<open>Immutable.Map\<close>
  | JArray "jsval list"                 \<comment> \<open>a plain array\<close>
  | JObject "(string \<times> jsval) list"   \<comment> \<open>a plain object\<close>

datatype error =
    AssertionError  \<comment> \<open>\<open>assert.ok\<close> of \<open>validateState\<close> failed\<close>
  | TypeError       \<comment> \<open>property read or method call on \<open>undefined\<close>/\<open>null\<close> or a value without it\<close>
  | InvalidKeyPath  \<comment> \<open>Immutable's \<open>invalid keyPath\<close> invariant of \<open>setIn\<close>\<close>
  | Unmodelled      \<comment> \<open>the call leaves the part of JavaScript and Immutable covered here\<close>

text \<open>Sequencing of a call that may throw: an exception propagates.\<close>

definition andThen :: "error + 'a \<Rightarrow> ('a \<Rightarrow> error + 'b) \<Rightarrow> error + 'b" where
  "andThen r f = (case r of Inl e \<Rightarrow> Inl e | Inr x \<Rightarrow> f x)"

fun truthy :: "jsval \<Rightarrow> bool" where
  "truthy JUndefined = False"
| "truthy JNull = False"
| "truthy (JBool b) = b"
| "truthy (JNum n) = (n \<noteq> 0)"
| "truthy (JStr s) = (s \<noteq> [])"
| "truthy (JList xs) = True"
| "truthy (JMap m) = True"
| "truthy (JArray xs) = True"
| "truthy (JObject m) = True"

text \<open>\<open>a || b\<close>\<close>

definition js_or :: "jsval \<Rightarrow> jsval \<Rightarrow> jsval" where
  "js_or a b = (if truthy a then a else b)"

fun isMap :: "jsval \<Rightarrow> bool" where
  "isMap (JMap m) = True"
| "isMap v = False"

fun isImmutable :: "jsval \<Rightarrow> bool" where
  "isImmutable (JList xs) = True"
| "isImmutable (JMap m) = True"
| "isImmutable v = False"

text \<open>
  \<open>v.toJS()\<close> of an Immutable collection: the plain array or object, with the
  Immutable values in it converted likewise; other values are kept as they are.
  \<open>Immutable.fromJS(v)\<close> is the way back: plain arrays and objects become lists and
  maps, deeply; other values are kept.
\<close>

fun toJS :: "jsval \<Rightarrow> jsval" where
  "toJS (JList xs) = JArray (map toJS xs)"
| "toJS (JMap m) = JObject (map (map_prod id toJS) m)"
| "toJS v = v"

fun fromJS :: "jsval \<Rightarrow> jsval" where
  "fromJS (JArray xs) = JList (map fromJS xs)"
| "fromJS (JObject m) = JMap (map (map_prod id fromJS) m)"
| "fromJS v = v"

text \<open>The helpers \<open>makeImmutable\<close> and \<open>makeJS\<close> of \<open>immutableUtil\<close>.\<close>

definition makeImmutable :: "jsval \<Rightarrow> jsval" where
  "makeImmutable v = (if isImmutable v then v else fromJS v)"

definition makeJS :: "jsval \<Rightarrow> jsval" where
  "makeJS v = (if isImmutable v then toJS v else v)"

text \<open>The method call \<open>v.toJS()\<close>: a TypeError on a value without the method.\<close>

definition im_toJS :: "jsval \<Rightarrow> error + jsval" where
  "im_toJS v = (if isImmutable v then Inr (toJS v) else Inl TypeError)"

text \<open>\<open>m.get(k)\<close> on a map: \<open>undefined\<close> when the key is absent.\<close>

definition map_get :: "(string \<times> jsval) list \<Rightarrow> string \<Rightarrow> jsval" where
  "map_get m k = (case map_of m k of None \<Rightarrow> JUndefined | Some v \<Rightarrow> v)"

text \<open>
  \<open>getIn(path)\<close>: walks the path; a missing key or a step into a value that is not an
  Immutable.Map gives \<open>undefined\<close>.
\<close>

fun getIn :: "jsval \<Rightarrow> string list \<Rightarrow> jsval" where
  "getIn v [] = v"
| "getIn (JMap m) (k # ks) = (case map_of m k of None \<Rightarrow> JUndefined | Some v \<Rightarrow> getIn v ks)"
| "getIn v (k # ks) = JUndefined"

text \<open>
  \<open>setIn(path, v)\<close>: a missing step creates a new map, an existing step must be an
  Immutable.Map, otherwise Immutable throws \<open>invalid keyPath\<close>. The first argument is
  the existing value at the current step (\<open>None\<close>: not set). Setting a key that is
  present keeps its position, a new key is added at the end.
\<close>

fun setIn' :: "jsval option \<Rightarrow> string list \<Rightarrow> jsval \<Rightarrow> error + jsval" where
  "setIn' existing [] v = Inr v"
| "setIn' None (k # ks) v =
     andThen (setIn' None ks v) (\<lambda>u. Inr (JMap [(k, u)]))"
| "setIn' (Some (JMap m)) (k # ks) v =
     andThen (setIn' (map_of m k) ks v) (\<lambda>u. Inr (JMap (AList.update k u m)))"
| "setIn' (Some other) (k # ks) v = Inl InvalidKeyPath"

definition setIn :: "jsval \<Rightarrow> string list \<Rightarrow> jsval \<Rightarrow> error + jsval" where
  "setIn state path v = setIn' (Some state) path v"

text \<open>
  \<open>a === b\<close>: primitives compare by value, objects by identity. The model has no
  object identity; two collections reached separately are distinct allocations.
\<close>

fun strict_eq :: "jsval \<Rightarrow> jsval \<Rightarrow> bool" where
  "strict_eq (JList xs) b = False"
| "strict_eq (JMap m) b = False"
| "strict_eq (JArray xs) b = False"
| "strict_eq (JObject m) b = False"
| "strict_eq a b = (a = b)"

text \<open>
  Numeric coercion of an operand (\<open>None\<close> is NaN). Strings and collections are never
  operands of arithmetic in well-formed states; their coercion is counted as NaN.
\<close>

fun toNumber :: "jsval \<Rightarrow> int option" where
  "toNumber (JNum n) = Some n"
| "toNumber JNull = Some 0"
| "toNumber (JBool b) = Some (if b then 1 else 0)"
| "toNumber v = None"

text \<open>Strings compare by code unit, lexicographically.\<close>

fun string_gt :: "string \<Rightarrow> string \<Rightarrow> bool" where
  "string_gt [] ys = False"
| "string_gt (x # xs) [] = True"
| "string_gt (x # xs) (y # ys) =
     ((of_char x :: nat) > of_char y \<or> (x = y \<and> string_gt xs ys))"

text \<open>\<open>a > b\<close>: two strings compare as strings, anything else numerically; NaN compares false.\<close>

fun js_gt :: "jsval \<Rightarrow> jsval \<Rightarrow> bool" where
  "js_gt (JStr a) (JStr b) = string_gt a b"
| "js_gt a b = (case (toNumber a, toNumber b) of (Some x, Some y) \<Rightarrow> x > y | _ \<Rightarrow> False)"

section \<open>The environment of a call\<close>

text \<open>
  Everything the two modules read from outside the repository's sources under study: the
  setting-key and notification-type constants, the settings store, the clock, the random
  sources and the classifier, timing-model and URL libraries. \<open>clock env i\<close> is the
  \<open>i\<close>-th reading of \<open>new Date()\<close> during the call, in milliseconds.
\<close>

record env =
  ADS_ENABLED :: string
  ADS_LOCALE :: string
  ADS_PER_DAY :: string
  ADS_PER_HOUR :: string
  ADS_OPERATING_MODE :: string
  ADS_PLACE :: string
  getSetting :: "string \<Rightarrow> jsval"
  clock :: "nat \<Rightarrow> int"
  isURL :: "string \<Rightarrow> bool"

text \<open>The clock seen by the code that runs after \<open>n\<close> readings were taken.\<close>

definition later :: "nat \<Rightarrow> 'a env_scheme \<Rightarrow> 'a env_scheme" where
  "later n e = e\<lparr>clock := (\<lambda>i. clock e (i + n))\<rparr>"

section \<open>userModelState.js\<close>

definition maxRowsInPageScoreHistory :: nat where
  "maxRowsInPageScoreHistory = 5"

definition maxRowsInAdsShownHistory :: nat where
  "maxRowsInAdsShownHistory = 99"

definition validateState :: "jsval \<Rightarrow> error + jsval" where
  "validateState state =
     (let state = makeImmutable state
      in if \<not> isMap state then Inl AssertionError
         else if \<not> isMap (getIn state [''userModel'']) then Inl AssertionError
         else Inr state)"

text \<open>\<open>Math.round(+new Date() / 1000)\<close>, rounding half up.\<close>

definition unixTimeNowSeconds :: "int \<Rightarrow> int" where
  "unixTimeNowSeconds ms = (ms + 500) div 1000"

text \<open>The counting loop of \<open>historyRespectsRollingTimeConstraint\<close>, from index \<open>i\<close> on.\<close>

fun countRecent :: "int \<Rightarrow> int \<Rightarrow> jsval list \<Rightarrow> nat \<Rightarrow> nat" where
  "countRecent now secondsWindow [] recentCount = recentCount"
| "countRecent now secondsWindow (timeOfAd # rest) recentCount =
     countRecent now secondsWindow rest
       (case toNumber timeOfAd of
          Some t \<Rightarrow> if now - t < secondsWindow then recentCount + 1 else recentCount
        | None \<Rightarrow> recentCount)"

text \<open>
  \<open>history.size\<close> is the length of an Immutable.List; the fallback \<open>[]\<close> of the
  caller is a plain array, whose \<open>size\<close> is \<open>undefined\<close>, so the loop does not run.
\<close>

definition historyRespectsRollingTimeConstraint ::
  "int \<Rightarrow> jsval \<Rightarrow> int \<Rightarrow> jsval \<Rightarrow> bool" where
  "historyRespectsRollingTimeConstraint now history secondsWindow allowableAdCount =
     (let recentCount = (case history of JList xs \<Rightarrow> countRecent now secondsWindow xs 0 | _ \<Rightarrow> 0)
      in if js_gt (JNum (int recentCount)) allowableAdCount then False else True)"

definition getAdEnabledValue :: "'a env_scheme \<Rightarrow> jsval \<Rightarrow> jsval" where
  "getAdEnabledValue e state = getIn state [''settings'', ADS_ENABLED e]"

definition appendToRingBufferUnderKey ::
  "'a env_scheme \<Rightarrow> jsval \<Rightarrow> string list \<Rightarrow> jsval \<Rightarrow> nat \<Rightarrow> error + jsval" where
  "appendToRingBufferUnderKey e state key item maxRows =
     (if \<not> truthy (getAdEnabledValue e state) then Inr state
      else andThen (validateState state) (\<lambda>state.
        let previous = (case getIn state key of JList xs \<Rightarrow> xs | _ \<Rightarrow> []);
            ringbuf = previous @ [item];
            n = length ringbuf;
            ringbuf = (if n > maxRows then drop (n - maxRows) ringbuf else ringbuf)
        in setIn state key (JList ringbuf)))"

definition getUserSurveyQueue :: "jsval \<Rightarrow> jsval" where
  "getUserSurveyQueue state = js_or (getIn state [''userModel'', ''userSurveyQueue'']) (JList [])"

definition setUserSurveyQueue :: "'a env_scheme \<Rightarrow> jsval \<Rightarrow> jsval \<Rightarrow> error + jsval" where
  "setUserSurveyQueue e state queue =
     (if \<not> truthy (getAdEnabledValue e state) then Inr state
      else setIn state [''userModel'', ''userSurveyQueue''] queue)"

definition getReportingEventQueue :: "jsval \<Rightarrow> jsval" where
  "getReportingEventQueue state =
     js_or (getIn state [''userModel'', ''reportingEventQueue'']) (JList [])"

definition setReportingEventQueue :: "'a env_scheme \<Rightarrow> jsval \<Rightarrow> jsval \<Rightarrow> error + jsval" where
  "setReportingEventQueue e state queue =
     (if \<not> truthy (getAdEnabledValue e state) then Inr state
      else setIn state [''userModel'', ''reportingEventQueue''] queue)"

definition setUserModelValue :: "'a env_scheme \<Rightarrow> jsval \<Rightarrow> string \<Rightarrow> jsval \<Rightarrow> error + jsval" where
  "setUserModelValue e state key v =
     (if key = [] \<or> \<not> truthy (getAdEnabledValue e state) then Inr state
      else andThen (validateState state) (\<lambda>state. setIn state [''userModel'', key] v))"

definition getUserModelValue :: "jsval \<Rightarrow> string \<Rightarrow> error + jsval" where
  "getUserModelValue state key =
     andThen (validateState state) (\<lambda>state. Inr (getIn state [''userModel'', key]))"

definition appendPageScoreToHistoryAndRotate ::
  "'a env_scheme \<Rightarrow> jsval \<Rightarrow> jsval list \<Rightarrow> error + jsval" where
  "appendPageScoreToHistoryAndRotate e state pageScore =
     (let stateKey = [''userModel'', ''pageScoreHistory''];
          wrappedScore = JList pageScore
      in appendToRingBufferUnderKey e state stateKey wrappedScore maxRowsInPageScoreHistory)"

definition appendAdShownToAdHistory :: "'a env_scheme \<Rightarrow> jsval \<Rightarrow> error + jsval" where
  "appendAdShownToAdHistory e state =
     (let stateKey = [''userModel'', ''adsShownHistory''];
          unixTime = unixTimeNowSeconds (clock e 0)
      in appendToRingBufferUnderKey e state stateKey (JNum unixTime) maxRowsInAdsShownHistory)"

definition getAdUUIDSeen :: "jsval \<Rightarrow> (string \<times> jsval) list" where
  "getAdUUIDSeen state =
     (case js_or (getIn state [''userModel'', ''adsUUIDSeen'']) (JMap []) of
        JMap seen \<Rightarrow> seen
      | _ \<Rightarrow> [])"

text \<open>
  \<open>seen.setIn([uuid], value)\<close> needs \<open>seen\<close> to be a collection; on a list the
  string key is not an index and Immutable's behaviour is left out.
\<close>

definition recordAdUUIDSeen :: "'a env_scheme \<Rightarrow> jsval \<Rightarrow> string \<Rightarrow> jsval \<Rightarrow> error + jsval" where
  "recordAdUUIDSeen e state uuid v =
     (if \<not> truthy (getAdEnabledValue e state) then Inr state
      else
        let key = [''userModel'', ''adsUUIDSeen''];
            seen = js_or (getIn state key) (JMap [])
        in andThen
             (case seen of
                JMap m \<Rightarrow> setIn seen [uuid] v
              | JList xs \<Rightarrow> Inl Unmodelled
              | _ \<Rightarrow> Inl TypeError)
             (\<lambda>seen. setIn state key seen))"

text \<open>
  \<open>state.settings\<close> is a property read on an Immutable.Map, hence \<open>undefined\<close>:
  \<open>getSetting\<close> answers from the settings store of the environment. Each call of
  \<open>historyRespectsRollingTimeConstraint\<close> reads the clock itself.
\<close>

definition allowedToShowAdBasedOnHistory :: "'a env_scheme \<Rightarrow> jsval \<Rightarrow> bool" where
  "allowedToShowAdBasedOnHistory e state =
     (let history = js_or (getIn state [''userModel'', ''adsShownHistory'']) (JArray []);
          hourWindow = 60 * 60;
          dayWindow = 24 * hourWindow;
          hourAllowed = getSetting e (ADS_PER_HOUR e);
          dayAllowed = getSetting e (ADS_PER_DAY e);
          respectsHourLimit = historyRespectsRollingTimeConstraint
             (unixTimeNowSeconds (clock e 0)) history hourWindow hourAllowed;
          respectsDayLimit = historyRespectsRollingTimeConstraint
             (unixTimeNowSeconds (clock e 1)) history dayWindow dayAllowed
      in if \<not> respectsHourLimit \<or> \<not> respectsDayLimit then False else True)"

text \<open>\<open>getPageScoreHistory(state, true)\<close>, the mutable copy, as both callers ask for.\<close>

definition getPageScoreHistory :: "jsval \<Rightarrow> error + jsval" where
  "getPageScoreHistory state =
     andThen (validateState state) (\<lambda>state.
       Inr (makeJS (js_or (getIn state [''userModel'', ''pageScoreHistory'']) (JArray []))))"

definition userModelState_removeAllHistory :: "jsval \<Rightarrow> error + jsval" where
  "userModelState_removeAllHistory state =
     andThen (validateState state) (\<lambda>state. setIn state [''userModel''] (JMap []))"

definition flagSearchState :: "'a env_scheme \<Rightarrow> jsval \<Rightarrow> string \<Rightarrow> jsval \<Rightarrow> error + jsval" where
  "flagSearchState e state url score =
     (if url = [] \<or> \<not> isURL e url \<or> \<not> truthy (getAdEnabledValue e state) then Inr state
      else andThen (validateState state) (\<lambda>state.
           andThen (setIn state [''userModel'', ''searchActivity''] (JBool True)) (\<lambda>state.
           andThen (setIn state [''userModel'', ''searchUrl''] (JStr url)) (\<lambda>state.
           andThen (setIn state [''userModel'', ''score''] score) (\<lambda>state.
           setIn state [''userModel'', ''lastSearchTime''] (JNum (clock e 0)))))))"

definition unFlagSearchState :: "'a env_scheme \<Rightarrow> jsval \<Rightarrow> string \<Rightarrow> error + jsval" where
  "unFlagSearchState e state url =
     (if url = [] \<or> \<not> isURL e url \<or> \<not> truthy (getAdEnabledValue e state) then Inr state
      else andThen (validateState state) (\<lambda>state.
        if strict_eq (getIn state [''userModel'', ''searchUrl'']) (JStr url) then Inr state
        else andThen (setIn state [''userModel'', ''searchActivity''] (JBool False)) (\<lambda>state.
             setIn state [''userModel'', ''lastSearchTime''] (JNum (clock e 0)))))"

definition flagShoppingState :: "'a env_scheme \<Rightarrow> jsval \<Rightarrow> string \<Rightarrow> error + jsval" where
  "flagShoppingState e state url =
     (if \<not> truthy (getAdEnabledValue e state) then Inr state
      else andThen (validateState state) (\<lambda>state.
           andThen (setIn state [''userModel'', ''shopActivity''] (JBool True)) (\<lambda>state.
           andThen (setIn state [''userModel'', ''shopUrl''] (JStr url)) (\<lambda>state.
           setIn state [''userModel'', ''lastShopTime''] (JNum (clock e 0))))))"

definition getSearchState :: "jsval \<Rightarrow> error + jsval" where
  "getSearchState state =
     andThen (validateState state) (\<lambda>state. Inr (getIn state [''userModel'', ''searchActivity'']))"

definition getShoppingState :: "jsval \<Rightarrow> error + jsval" where
  "getShoppingState state =
     andThen (validateState state) (\<lambda>state. Inr (getIn state [''userModel'', ''shopActivity'']))"

definition unFlagShoppingState :: "'a env_scheme \<Rightarrow> jsval \<Rightarrow> error + jsval" where
  "unFlagShoppingState e state =
     (if \<not> truthy (getAdEnabledValue e state) then Inr state
      else andThen (validateState state) (\<lambda>state.
           setIn state [''userModel'', ''shopActivity''] (JBool False)))"

definition flagUserBuyingSomething :: "'a env_scheme \<Rightarrow> jsval \<Rightarrow> string \<Rightarrow> error + jsval" where
  "flagUserBuyingSomething e state url =
     (if \<not> truthy (getAdEnabledValue e state) then Inr state
      else andThen (validateState state) (\<lambda>state.
           andThen (setIn state [''userModel'', ''purchaseTime''] (JNum (clock e 0))) (\<lambda>state.
           andThen (setIn state [''userModel'', ''purchaseUrl''] (JStr url)) (\<lambda>state.
           setIn state [''userModel'', ''purchaseActive''] (JBool True)))))"

definition getUserBuyingState :: "jsval \<Rightarrow> error + jsval" where
  "getUserBuyingState state =
     andThen (validateState state) (\<lambda>state. Inr (getIn state [''userModel'', ''purchaseActive'']))"

text \<open>\<open>getUserModelTimingMdl(state, true)\<close>, the mutable copy, which is the default.\<close>

definition getUserModelTimingMdl :: "jsval \<Rightarrow> jsval" where
  "getUserModelTimingMdl state =
     makeJS (js_or (getIn state [''userModel'', ''timingModel'']) (JList []))"

definition setUserModelTimingMdl :: "'a env_scheme \<Rightarrow> jsval \<Rightarrow> jsval \<Rightarrow> error + jsval" where
  "setUserModelTimingMdl e state model =
     (if \<not> truthy (getAdEnabledValue e state) then Inr state
      else setIn state [''userModel'', ''timingModel''] (makeImmutable model))"

definition setServedAd :: "'a env_scheme \<Rightarrow> jsval \<Rightarrow> jsval \<Rightarrow> jsval \<Rightarrow> error + jsval" where
  "setServedAd e state adServed adClass =
     (if \<not> truthy adServed \<or> \<not> truthy (getAdEnabledValue e state) then Inr state
      else andThen (validateState state) (\<lambda>state.
           andThen (setIn state [''userModel'', ''lastAdTime''] (JNum (clock e 0))) (\<lambda>state.
           andThen (setIn state [''userModel'', ''adServed''] adServed) (\<lambda>state.
           setIn state [''userModel'', ''adClass''] adClass))))"

definition setLastUserActivity :: "'a env_scheme \<Rightarrow> jsval \<Rightarrow> error + jsval" where
  "setLastUserActivity e state =
     (if \<not> truthy (getAdEnabledValue e state) then Inr state
      else andThen (validateState state) (\<lambda>state.
           setIn state [''userModel'', ''lastUserActivity''] (JNum (clock e 0))))"

definition setLocale :: "'a env_scheme \<Rightarrow> jsval \<Rightarrow> jsval \<Rightarrow> error + jsval" where
  "setLocale e state locale =
     (if \<not> truthy (getAdEnabledValue e state) then Inr state
      else andThen (validateState state) (\<lambda>state.
           setIn state [''userModel'', ''locale''] locale))"

definition setLastUserIdleStopTime :: "'a env_scheme \<Rightarrow> jsval \<Rightarrow> error + jsval" where
  "setLastUserIdleStopTime e state =
     (if \<not> truthy (getAdEnabledValue e state) then Inr state
      else andThen (validateState state) (\<lambda>state.
           setIn state [''userModel'', ''lastUserIdleStopTime''] (JNum (clock e 0))))"

definition getLastUserIdleStopTime :: "jsval \<Rightarrow> error + jsval" where
  "getLastUserIdleStopTime state =
     andThen (validateState state) (\<lambda>state.
       Inr (getIn state [''userModel'', ''lastUserIdleStopTime'']))"

definition getSSID :: "jsval \<Rightarrow> jsval" where
  "getSSID state = js_or (getIn state [''userModel'', ''currentSSID'']) JNull"

text \<open>\<open>places.get(ssid)\<close>: the maps of the state are keyed by strings.\<close>

definition getAdPlace :: "jsval \<Rightarrow> jsval" where
  "getAdPlace state =
     (let ssid = getSSID state;
          places = getIn state [''userModel'', ''places'']
      in js_or
           (if \<not> truthy places then places
            else if \<not> truthy ssid then ssid
            else case places of
                   JMap m \<Rightarrow> (case ssid of JStr k \<Rightarrow> map_get m k | _ \<Rightarrow> JUndefined)
                 | _ \<Rightarrow> JBool False)
           (JStr ''UNDISCLOSED''))"

definition setSSID :: "'a env_scheme \<Rightarrow> jsval \<Rightarrow> jsval \<Rightarrow> error + jsval" where
  "setSSID e state v =
     (if \<not> truthy (getAdEnabledValue e state) then Inr state
      else
        let current = getSSID state;
            v = (if \<not> truthy v then JStr ''unknown'' else v)
        in andThen (setIn state [''userModel'', ''currentSSID''] v) (\<lambda>state.
             if \<not> strict_eq current v
             then setIn state [''settings'', ADS_PLACE e]
                    (js_or (getAdPlace state) (JStr ''UNDISCLOSED''))
             else Inr state))"

definition getAdUUID :: "jsval \<Rightarrow> jsval" where
  "getAdUUID state = getIn state [''userModel'', ''adUUID'']"

definition setAdUUID :: "'a env_scheme \<Rightarrow> jsval \<Rightarrow> jsval \<Rightarrow> error + jsval" where
  "setAdUUID e state uuid =
     (if \<not> truthy (getAdEnabledValue e state) then Inr state
      else setIn state [''userModel'', ''adUUID''] uuid)"

text \<open>
  \<open>Immutable.Map(event)\<close> of a plain object is the map with the same entries; the
  values are not converted.
\<close>

definition appendToReportingEventQueue ::
  "'a env_scheme \<Rightarrow> jsval \<Rightarrow> (string \<times> jsval) list \<Rightarrow> error + jsval" where
  "appendToReportingEventQueue e state event =
     (let q = (case getReportingEventQueue state of JList xs \<Rightarrow> xs | _ \<Rightarrow> [])
      in setReportingEventQueue e state (JList (q @ [JMap event])))"


section \<open>The ads engine module\<close>

subsection \<open>More of JavaScript\<close>

text \<open>Decimal digits of a number, for \<open>String(n)\<close> and string concatenation.\<close>

function showNat :: "nat \<Rightarrow> string" where
  "showNat n =
     (if n < 10 then [''0123456789'' ! n]
      else showNat (n div 10) @ [''0123456789'' ! (n mod 10)])"
  by pat_completeness auto
termination
  by (relation "measure id") auto

definition showInt :: "int \<Rightarrow> string" where
  "showInt i = (if i < 0 then CHR ''-'' # showNat (nat (- i)) else showNat (nat i))"

text \<open>\<open>xs.join(sep)\<close> on strings\<close>

fun join :: "string \<Rightarrow> string list \<Rightarrow> string" where
  "join sep [] = []"
| "join sep [x] = x"
| "join sep (x # y # ys) = x @ sep @ join sep (y # ys)"

text \<open>\<open>s.split(c)\<close> for a one-character separator: at least one piece.\<close>

fun split :: "char \<Rightarrow> string \<Rightarrow> string list" where
  "split c [] = [[]]"
| "split c (x # xs) =
     (if x = c then [] # split c xs
      else case split c xs of w # ws \<Rightarrow> (x # w) # ws | [] \<Rightarrow> [[x]])"

text \<open>
  \<open>String(v)\<close>. Collections print as arrays and plain objects do; in a joined array
  \<open>undefined\<close> and \<open>null\<close> print as the empty string.
\<close>

fun toStringJS :: "jsval \<Rightarrow> string" where
  "toStringJS JUndefined = ''undefined''"
| "toStringJS JNull = ''null''"
| "toStringJS (JBool b) = (if b then ''true'' else ''false'')"
| "toStringJS (JNum n) = showInt n"
| "toStringJS (JStr s) = s"
| "toStringJS (JList xs) =
     join '','' (map (\<lambda>x. if x = JUndefined \<or> x = JNull then [] else toStringJS x) xs)"
| "toStringJS (JMap m) = ''[object Object]''"
| "toStringJS (JArray xs) =
     join '','' (map (\<lambda>x. if x = JUndefined \<or> x = JNull then [] else toStringJS x) xs)"
| "toStringJS (JObject m) = ''[object Object]''"

text \<open>
  \<open>v.length\<close> of a plain array or a string, \<open>undefined\<close> on other values that have
  properties (an Immutable.List has a \<open>size\<close>, no \<open>length\<close>).
\<close>

fun js_length :: "jsval \<Rightarrow> jsval" where
  "js_length (JArray xs) = JNum (int (length xs))"
| "js_length (JStr s) = JNum (int (length s))"
| "js_length v = JUndefined"

text \<open>
  \<open>v.name\<close>, a property read: a TypeError on \<open>undefined\<close> and \<open>null\<close>, the entry
  of a plain object, \<open>undefined\<close> otherwise (the entries of an Immutable.Map are not
  properties of it).
\<close>

fun js_prop :: "jsval \<Rightarrow> string \<Rightarrow> error + jsval" where
  "js_prop JUndefined name = Inl TypeError"
| "js_prop JNull name = Inl TypeError"
| "js_prop (JObject m) name = Inr (map_get m name)"
| "js_prop v name = Inr JUndefined"

text \<open>
  \<open>v.get(key)\<close>, the method of an Immutable collection: values without the method raise
  a TypeError, a list has no string keys.
\<close>

fun im_get :: "jsval \<Rightarrow> string \<Rightarrow> error + jsval" where
  "im_get (JMap m) key = Inr (map_get m key)"
| "im_get (JList xs) key = Inr JUndefined"
| "im_get v key = Inl TypeError"

text \<open>The rows of a plain array; an object used as an array has none.\<close>

fun rowsOf :: "jsval \<Rightarrow> jsval list" where
  "rowsOf (JArray xs) = xs"
| "rowsOf v = []"

text \<open>\<open>underscore.last(rows)\<close>\<close>

definition lastRow :: "jsval list \<Rightarrow> jsval" where
  "lastRow rows = (if rows = [] then JUndefined else last rows)"

text \<open>
  \<open>underscore.isEqual\<close>: primitives are equal when identical, plain arrays when
  equal row by row, plain objects when they have as many keys and every key of the first
  has an equal value in the second. A plain array or object is never equal to an
  Immutable collection (another class, another constructor). The comparison of an
  Immutable collection with another value walks Immutable's internals and is not covered:
  \<open>deepPlain\<close> says that a value holds no Immutable collection, and the caller below
  asks it of the first operand.
\<close>

fun deepPlain :: "jsval \<Rightarrow> bool" where
  "deepPlain (JList xs) = False"
| "deepPlain (JMap m) = False"
| "deepPlain (JArray xs) = list_all deepPlain xs"
| "deepPlain (JObject m) = list_all (\<lambda>(k, v). deepPlain v) m"
| "deepPlain v = True"

fun isEqual :: "jsval \<Rightarrow> jsval \<Rightarrow> bool" where
  "isEqual (JArray xs) (JArray ys) = list_all2 isEqual xs ys"
| "isEqual (JObject a) (JObject b) =
     (length a = length b \<and>
      list_all (\<lambda>(k, v). case map_of b k of None \<Rightarrow> False | Some w \<Rightarrow> isEqual v w) a)"
| "isEqual (JArray xs) b = False"
| "isEqual (JObject a) b = False"
| "isEqual (JList xs) b = False"
| "isEqual (JMap a) b = False"
| "isEqual a (JArray ys) = False"
| "isEqual a (JObject b) = False"
| "isEqual a (JList ys) = False"
| "isEqual a (JMap b) = False"
| "isEqual a b = (a = b)"

text \<open>\<open>q.last()\<close> on an Immutable collection\<close>

fun im_last :: "jsval \<Rightarrow> error + jsval" where
  "im_last (JList xs) = Inr (lastRow xs)"
| "im_last (JMap m) = Inr (if m = [] then JUndefined else snd (last m))"
| "im_last v = Inl TypeError"

text \<open>\<open>s.startsWith(p)\<close>\<close>

definition startsWith :: "string \<Rightarrow> string \<Rightarrow> bool" where
  "startsWith s p = (take (length p) s = p)"

text \<open>\<open>underscore.invert\<close>: values become keys, a later entry wins.\<close>

definition invert :: "(string \<times> string) list \<Rightarrow> (string \<times> string) list" where
  "invert obj = foldl (\<lambda>result (k, v). AList.update v k result) [] obj"

subsection \<open>Module state, effects and the outside world\<close>

text \<open>A catalog entry: a JSON object with a string \<open>uuid\<close> and the display fields.\<close>

record ad =
  uuid :: string
  notificationText :: jsval
  notificationURL :: jsval
  advertiser :: jsval

definition ad_js :: "ad \<Rightarrow> jsval" where
  "ad_js x = JObject [(''uuid'', JStr (uuid x)), (''notificationText'', notificationText x),
                   (''notificationURL'', notificationURL x), (''advertiser'', advertiser x)]"

text \<open>The ad catalog \<open>sampleAdFeed\<close>: \<open>categories\<close> maps a category name to its ads.\<close>

record adFeed =
  categories :: "(string \<times> ad list) list"

text \<open>A timer handle returned by \<open>setTimeout\<close>, with its delay (\<open>None\<close>: NaN).\<close>

datatype timer = Timeout "int option"

text \<open>What a call sends out: dispatched actions, notifications, timers and requests.\<close>

datatype effect =
    UserModelLog string jsval            \<comment> \<open>\<open>appActions.onUserModelLog(eventName, data)\<close>\<close>
  | UserModelUploadLogs jsval int        \<comment> \<open>\<open>appActions.onUserModelUploadLogs(stamp, retryIn)\<close>\<close>
  | NativeNotificationCreate jsval jsval \<comment> \<open>\<open>appActions.nativeNotificationCreate(windowId, opts)\<close>\<close>
  | SetTimeout "int option"              \<comment> \<open>\<open>setTimeout(appActions.onUserModelCollectActivity, ms)\<close>\<close>
  | ClearTimeout timer
  | Roundtrip string string jsval jsval  \<comment> \<open>\<open>roundtrip({method, path, payload}, ...)\<close>, and the \<open>stamp\<close> its callback holds\<close>

text \<open>
  The variables of the module (\<open>priorData\<close> is kept as its \<open>names\<close>, \<open>None\<close> until
  loaded) and, last, the effects sent so far.
\<close>

record ctx =
  foregroundP :: jsval
  matrixData :: jsval
  priorData :: "string list option"
  sampleAdFeed :: "adFeed option"
  lastSingleClassification :: "string list option"
  collectActivityId :: "timer option"
  effects :: "effect list"

definition emit :: "effect \<Rightarrow> ctx \<Rightarrow> ctx" where
  "emit x c = c\<lparr>effects := effects c @ [x]\<rparr>"

text \<open>
  The rest of the outside world: notification-type constants, date formatting and parsing,
  the UUID and random sources (\<open>Math.random()\<close> as a fraction \<open>num / den\<close>), the URL
  parser, the classifier (\<open>um\<close>), the timing model (\<open>elph\<close>), and the build facts.
\<close>

record world = env +
  AD_SHOWN :: string
  NOTIFICATION_RESULT :: string
  NOTIFICATION_CLICK :: string
  NOTIFICATION_TIMEOUT :: string
  ADS :: string
  SURVEYS :: string
  SURVEY_SHOWN :: string
  toISOString :: "int \<Rightarrow> string"
  parseDate :: "jsval \<Rightarrow> int option"
  uuidv4 :: string
  random :: "nat \<times> nat"
  getHostname :: "string \<Rightarrow> jsval"
  deriveCategoryScores :: "jsval \<Rightarrow> rat list"
  vectorIndexOfMax :: "rat list \<Rightarrow> int"
  initOnlineELPH :: jsval
  updateOnlineELPH :: "string \<Rightarrow> jsval \<Rightarrow> jsval"
  alphabetizer :: "string \<Rightarrow> jsval \<Rightarrow> jsval \<Rightarrow> bool \<Rightarrow> bool \<Rightarrow> string \<Rightarrow> string \<Rightarrow> string"
  testingP :: bool
  iconPath :: string
  braveVersion :: string
  platform :: string
  server :: string

subsection \<open>Event recording\<close>

text \<open>True when the module is not initialised or ads are not enabled.\<close>

definition noop :: "'a world_scheme \<Rightarrow> ctx \<Rightarrow> jsval \<Rightarrow> bool" where
  "noop w c state =
     (\<not> truthy (matrixData c) \<or> priorData c = None \<or> \<not> truthy (getAdEnabledValue w state))"

definition translate :: "(string \<times> jsval) list" where
  "translate = [(''clicked'', JStr ''clicked''), (''closed'', JStr ''dismissed''),
                (''ignored'', JStr ''timeout'')]"

text \<open>The body of the \<open>forEach\<close> over the keys of the inverted setting names.\<close>

definition settingsStep ::
  "'a world_scheme \<Rightarrow> (string \<times> string) list \<Rightarrow> jsval \<Rightarrow> jsval \<Rightarrow>
     (string \<times> jsval) list \<Rightarrow> string \<Rightarrow> (string \<times> jsval) list" where
  "settingsStep w mapping key actionValue settings k =
     (let v = (case map_of mapping k of Some v \<Rightarrow> v | None \<Rightarrow> ''undefined'');
          settings = AList.update v
             (if \<not> strict_eq (JStr k) key then getSetting w k else actionValue) settings
      in if k = ADS_OPERATING_MODE w
         then AList.update v (if truthy (map_get settings v) then JStr ''B'' else JStr ''A'') settings
         else settings)"

text \<open>
  The \<open>switch\<close> of \<open>generateAdReportingEvent\<close> that fills in the record \<open>map\<close> (here \<open>map'\<close>).
  \<open>None\<close> stands for every \<open>return state\<close> inside it (all of them return the state
  the function was called with); otherwise the current state and the record go on to the
  duplicate check. The keys of the maps in the state are strings, so a \<open>uuid\<close> that
  is not a string is left out.
\<close>

definition eventData ::
  "'a world_scheme \<Rightarrow> ctx \<Rightarrow> jsval \<Rightarrow> string \<Rightarrow> jsval \<Rightarrow> (string \<times> jsval) list \<Rightarrow>
     error + (jsval \<times> (string \<times> jsval) list) option" where
  "eventData w c state eventType action map' =
    (if eventType = ''notify'' then
       andThen (im_get action ''eventName'') (\<lambda>eventName.
       andThen (im_get action ''data'') (\<lambda>data.
         if strict_eq eventName (JStr (AD_SHOWN w)) then
           andThen (im_get data ''hierarchy'') (\<lambda>classification.
           andThen (im_get data ''notificationUrl'') (\<lambda>url.
           andThen (im_get data ''uuid'') (\<lambda>notificationId.
             Inr (Some (state,
               map' @ [(''notificationType'', JStr ''generated''),
                      (''notificationClassification'', classification),
                      (''notificationCatalog'', JStr ''unspecified-catalog''),
                      (''notificationUrl'', url),
                      (''notificationId'', notificationId)])))))
         else if strict_eq eventName (JStr (NOTIFICATION_RESULT w)) then
           andThen (im_get data ''uuid'') (\<lambda>id.
           andThen (im_get data ''result'') (\<lambda>result.
             let notificationType = js_or (map_get translate (toStringJS result)) result
             in andThen
                  (if strict_eq notificationType (JStr ''clicked'') \<or>
                      strict_eq notificationType (JStr ''dismissed'')
                   then (case id of JStr u \<Rightarrow> recordAdUUIDSeen w state u (JNum 1)
                         | _ \<Rightarrow> Inl Unmodelled)
                   else Inr state) (\<lambda>state.
                andThen (im_get data ''uuid'') (\<lambda>notificationId.
                  Inr (Some (state,
                    map' @ [(''notificationType'', notificationType),
                           (''notificationId'', notificationId)]))))))
         else if strict_eq eventName (JStr (NOTIFICATION_CLICK w)) \<or>
                 strict_eq eventName (JStr (NOTIFICATION_TIMEOUT w)) then Inr None
         else Inr None))
     else if eventType = ''load'' then
       andThen (im_get action ''tabValue'') (\<lambda>tabValue.
         if \<not> truthy tabValue then Inr None
         else andThen (im_get tabValue ''incognito'') (\<lambda>incognito.
           if truthy incognito then Inr None
           else andThen (im_get tabValue ''url'') (\<lambda>tabUrl.
             case tabUrl of
               JStr u \<Rightarrow>
                 if \<not> startsWith u ''http://'' \<and> \<not> startsWith u ''https://'' then Inr None
                 else andThen (im_get tabValue ''tabId'') (\<lambda>tabId.
                      andThen (getSearchState state) (\<lambda>searchState.
                        let classification =
                              (case lastSingleClassification c of
                                 Some xs \<Rightarrow> JArray (List.map JStr xs) | None \<Rightarrow> JArray [])
                        in Inr (Some (state,
                             map' @ [(''tabId'', JStr (toStringJS tabId)),
                                    (''tabType'',
                                       if truthy searchState then JStr ''search'' else JStr ''click''),
                                    (''tabUrl'', tabUrl),
                                    (''tabClassification'', classification)]))))
             | _ \<Rightarrow> Inl TypeError)))
     else if eventType = ''blur'' then
       andThen (im_get action ''tabValue'') (\<lambda>tabValue.
       andThen (im_get tabValue ''tabId'') (\<lambda>tabId.
         Inr (Some (state, map' @ [(''tabId'', JStr (toStringJS tabId))]))))
     else if eventType = ''focus'' then
       andThen (im_get action ''tabId'') (\<lambda>tabId.
         Inr (Some (state, map' @ [(''tabId'', JStr (toStringJS tabId))])))
     else if eventType = ''settings'' then
       andThen (im_get action ''key'') (\<lambda>key.
         let mapping = invert [(''enabled'', ADS_ENABLED w), (''locale'', ADS_LOCALE w),
                               (''adsPerDay'', ADS_PER_DAY w), (''adsPerHour'', ADS_PER_HOUR w),
                               (''operatingMode'', ADS_OPERATING_MODE w)]
         in if map_of mapping (toStringJS key) = None then Inr None
            else andThen (getUserModelValue state ''configured'') (\<lambda>configured.
                 andThen (getUserModelValue state ''allowed'') (\<lambda>allowed.
                 andThen (im_get action ''value'') (\<lambda>actionValue.
                   let settings = [(''notifications'',
                                      JObject [(''configured'', configured), (''allowed'', allowed)])];
                       settings = foldl (settingsStep w mapping key actionValue) settings
                                    (List.map fst mapping);
                       settings = AList.delete ''enabled'' settings
                   in Inr (Some (state, map' @ [(''settings'', JObject settings)]))))))
     else Inr (Some (state, map' @ [(''place'', getAdPlace state)])))"

text \<open>
  \<open>last.toJS()\<close>, \<open>last.stamp = map.stamp\<close> and \<open>underscore.isEqual(last, map)\<close>
  for a truthy \<open>last\<close>. The stored row is an Immutable.Map, and \<open>toJS\<close> turns it and
  the Immutable values in it into plain objects and arrays; \<open>map\<close> is the plain object
  built above, whose values are what the action held. A row that is a list turns into an
  array, never equal to the record, and a row without \<open>toJS\<close> is a TypeError.
\<close>

definition sameButStamp :: "jsval \<Rightarrow> (string \<times> jsval) list \<Rightarrow> error + bool" where
  "sameButStamp last' map' =
     (case last' of
        JMap l \<Rightarrow>
          (let l = AList.update ''stamp'' (map_get map' ''stamp'') (map (map_prod id toJS) l)
           in if deepPlain (JObject l) then Inr (isEqual (JObject l) (JObject map'))
              else Inl Unmodelled)
      | JList xs \<Rightarrow> Inr False
      | _ \<Rightarrow> Inl TypeError)"

definition generateAdReportingEvent ::
  "'a world_scheme \<Rightarrow> ctx \<Rightarrow> jsval \<Rightarrow> string \<Rightarrow> jsval \<Rightarrow> error + (jsval \<times> ctx)" where
  "generateAdReportingEvent w c state eventType action =
     (if noop w c state then Inr (state, c)
      else
        let map' = [(''type'', JStr eventType), (''stamp'', JStr (toISOString w (clock w 0)))]
        in andThen (eventData w c state eventType action map') (\<lambda>r.
           case r of
             None \<Rightarrow> Inr (state, c)
           | Some (state, map') \<Rightarrow>
               andThen (im_last (getReportingEventQueue state)) (\<lambda>last.
               andThen (if truthy last then sameButStamp last map' else Inr False) (\<lambda>same.
                 if same then Inr (state, c)
                 else andThen (appendToReportingEventQueue w state map') (\<lambda>state.
                        Inr (state, emit (UserModelLog ''Event logged'' (JObject map')) c))))))"

subsection \<open>Identity and history erasure\<close>

definition oneDay :: "'a world_scheme \<Rightarrow> int" where
  "oneDay w = (if testingP w then 600 else 86400) * 1000"

definition oneHour :: "'a world_scheme \<Rightarrow> int" where
  "oneHour w = (if testingP w then 25 else 3600) * 1000"

text \<open>
  Arms or cancels the upload timer. \<open>new Date(mark.stamp).getTime()\<close> is NaN for a
  stamp that does not parse; NaN is not greater than the hour, and is the delay then.
\<close>

definition collectActivityAsNeeded ::
  "'a world_scheme \<Rightarrow> ctx \<Rightarrow> jsval \<Rightarrow> jsval \<Rightarrow> error + (jsval \<times> ctx)" where
  "collectActivityAsNeeded w c state adEnabled =
     (if \<not> truthy adEnabled then
        (case collectActivityId c of
           Some t \<Rightarrow> Inr (state, (emit (ClearTimeout t) c)\<lparr>collectActivityId := None\<rparr>)
         | None \<Rightarrow> Inr (state, c))
      else if collectActivityId c \<noteq> None then Inr (state, c)
      else
        andThen (im_toJS (getReportingEventQueue state)) (\<lambda>events.
          let mark = lastRow (rowsOf events)
          in andThen
               (if truthy mark
                then andThen (js_prop mark ''stamp'') (\<lambda>stamp.
                       Inr (case parseDate w stamp of
                              None \<Rightarrow> None
                            | Some t \<Rightarrow>
                                let retryIn = clock w 0 - t
                                in Some (if retryIn > oneHour w then oneHour w else retryIn)))
                else Inr (Some (oneHour w)))
               (\<lambda>retryIn.
                  Inr (state, (emit (SetTimeout retryIn) c)
                                \<lparr>collectActivityId := Some (Timeout retryIn)\<rparr>))))"

definition generateAdUUIDString :: "'a world_scheme \<Rightarrow> string" where
  "generateAdUUIDString w = uuidv4 w"

definition generateAndSetAdUUIDRegardless :: "'a world_scheme \<Rightarrow> jsval \<Rightarrow> error + jsval" where
  "generateAndSetAdUUIDRegardless w state = setAdUUID w state (JStr (generateAdUUIDString w))"

text \<open>\<open>typeof v === 'undefined'\<close> holds of \<open>undefined\<close> only.\<close>

definition generateAndSetAdUUIDButOnlyIfDNE :: "'a world_scheme \<Rightarrow> jsval \<Rightarrow> error + jsval" where
  "generateAndSetAdUUIDButOnlyIfDNE w state =
     (if getAdUUID state = JUndefined then generateAndSetAdUUIDRegardless w state
      else Inr state)"

definition confirmAdUUIDIfAdEnabled ::
  "'a world_scheme \<Rightarrow> ctx \<Rightarrow> jsval \<Rightarrow> error + (jsval \<times> ctx)" where
  "confirmAdUUIDIfAdEnabled w c state =
     (let adEnabled = getAdEnabledValue w state
      in andThen (if truthy adEnabled then generateAndSetAdUUIDButOnlyIfDNE w state
                  else Inr state)
           (\<lambda>state. collectActivityAsNeeded w c state adEnabled))"

definition removeAllHistory :: "'a world_scheme \<Rightarrow> ctx \<Rightarrow> jsval \<Rightarrow> error + (jsval \<times> ctx)" where
  "removeAllHistory w c state =
     andThen (userModelState_removeAllHistory state) (\<lambda>state.
       confirmAdUUIDIfAdEnabled w c state)"

subsection \<open>Timing model\<close>

text \<open>
  \<open>(x < thresh) ? 'low' : 'high'\<close> on a number that is finite (\<open>Some\<close>) or is NaN
  or positive infinity (\<open>None\<close>), which are not below any threshold.
\<close>

definition valueToLowHigh :: "rat option \<Rightarrow> rat \<Rightarrow> string" where
  "valueToLowHigh x thresh =
     (case x of Some r \<Rightarrow> if r < thresh then ''low'' else ''high'' | None \<Rightarrow> ''high'')"

text \<open>
  \<open>nback / scores[indexOfMax]\<close>: a missing score gives NaN, a zero score NaN or
  infinity.
\<close>

definition topicVariance :: "'a world_scheme \<Rightarrow> jsval \<Rightarrow> error + string" where
  "topicVariance w state =
     andThen (getPageScoreHistory state) (\<lambda>history.
       let nback = js_length history;
           scores = deriveCategoryScores w history;
           indexOfMax = vectorIndexOfMax w scores;
           varval =
             (case toNumber nback of
                None \<Rightarrow> None
              | Some n \<Rightarrow>
                  if 0 \<le> indexOfMax \<and> nat indexOfMax < length scores \<and>
                     scores ! nat indexOfMax \<noteq> 0
                  then Some (of_int n / (scores ! nat indexOfMax))
                  else None)
       in Inr (valueToLowHigh varval (11 / 10)))"

definition recencyCalc :: "'a world_scheme \<Rightarrow> jsval \<Rightarrow> error + string" where
  "recencyCalc w state =
     (let now = clock w 0
      in andThen (getLastUserIdleStopTime state) (\<lambda>stopTime.
           let diff = (case toNumber stopTime of
                         Some t \<Rightarrow> Some (of_int (now - t)) | None \<Rightarrow> None)
           in Inr (valueToLowHigh diff 60)))"

text \<open>
  \<open>getSearchState()\<close>, \<open>getShoppingState()\<close> and \<open>getUserBuyingState()\<close> are
  called without an argument: their \<open>state\<close> is \<open>undefined\<close>.
\<close>

definition stateToLetterStd :: "'a world_scheme \<Rightarrow> jsval \<Rightarrow> error + string" where
  "stateToLetterStd w state =
     andThen (topicVariance w state) (\<lambda>tvar.
     andThen (getSearchState JUndefined) (\<lambda>sch.
     andThen (getShoppingState JUndefined) (\<lambda>shp.
     andThen (if truthy shp then Inr shp else getUserBuyingState JUndefined) (\<lambda>buy.
     andThen (recencyCalc w state) (\<lambda>rec.
       Inr (alphabetizer w tvar sch buy False False ''low'' rec))))))"

text \<open>
  \<open>special\<close> is a string; \<open>None\<close> is the omitted argument, which takes the default
  \<open>null\<close>, so that \<open>special.length\<close> raises a TypeError.
\<close>

definition updateTimingModel ::
  "'a world_scheme \<Rightarrow> ctx \<Rightarrow> jsval \<Rightarrow> string option \<Rightarrow> error + jsval" where
  "updateTimingModel w c state special =
     (if noop w c state then Inr state
      else
        andThen (case special of
                   None \<Rightarrow> Inl TypeError
                 | Some sp \<Rightarrow> if length sp = 0 then stateToLetterStd w state else Inr sp)
          (\<lambda>letter.
             let mdl = getUserModelTimingMdl state;
                 mdl = (if strict_eq (js_length mdl) (JNum 0) then initOnlineELPH w else mdl);
                 mdl = updateOnlineELPH w letter mdl
             in setUserModelTimingMdl w state mdl))"

subsection \<open>Shopping detection\<close>

definition testShoppingData ::
  "'a world_scheme \<Rightarrow> ctx \<Rightarrow> jsval \<Rightarrow> string \<Rightarrow> error + jsval" where
  "testShoppingData w c state url =
     (if noop w c state then Inr state
      else
        let hostname = getHostname w url
        in andThen (getSearchState state) (\<lambda>lastShopState.
             if strict_eq hostname (JStr ''amazon.com'') then flagShoppingState w state url
             else if \<not> strict_eq hostname (JStr ''amazon.com'') \<and> truthy lastShopState
             then unFlagShoppingState w state
             else Inr state))"

subsection \<open>Ad selection\<close>

text \<open>
  \<open>randomKey\<close> on an array of \<open>n\<close> entries: the index
  \<open>n * Math.random() << 0\<close>, or \<open>None\<close> when there is no key at that position.
\<close>

definition randomKey :: "'a world_scheme \<Rightarrow> nat \<Rightarrow> nat option" where
  "randomKey w n =
     (let i = (n * fst (random w)) div snd (random w) in if i < n then Some i else None)"

definition goAheadAndShowTheAd ::
  "'a world_scheme \<Rightarrow> ctx \<Rightarrow> jsval \<Rightarrow> jsval \<Rightarrow> jsval \<Rightarrow> jsval \<Rightarrow> jsval \<Rightarrow> jsval \<Rightarrow> ctx" where
  "goAheadAndShowTheAd w c windowId notificationTitle notificationText' notificationUrl uuid'
       notificationId =
     emit (NativeNotificationCreate windowId
             (JObject [(''title'', notificationTitle),
                       (''message'', notificationText'),
                       (''icon'', JStr (iconPath w)),
                       (''sound'', JBool True),
                       (''timeout'', JNum 60),
                       (''wait'', JBool True),
                       (''uuid'', uuid'),
                       (''data'', JObject [(''windowId'', windowId),
                                           (''notificationUrl'', notificationUrl),
                                           (''notificationId'',
                                              js_or notificationId (JStr (ADS w)))])]))
       c"

text \<open>\<open>underscore.findWhere(surveys, { status: 'available' })\<close>, as the index found.\<close>

definition isAvailable :: "jsval \<Rightarrow> bool" where
  "isAvailable x =
     (case x of JObject m \<Rightarrow> strict_eq (map_get m ''status'') (JStr ''available'') | _ \<Rightarrow> False)"

fun findAvailable :: "jsval list \<Rightarrow> nat option" where
  "findAvailable [] = None"
| "findAvailable (x # xs) =
     (if isAvailable x then Some 0 else map_option Suc (findAvailable xs))"

text \<open>
  The loop \<open>for (let level in hierarchy)\<close> over the remaining levels, with the current
  \<open>winnerOverTime\<close> and \<open>result\<close>; a catalog entry is an array, hence truthy.
\<close>

fun hierarchyLoop ::
  "(string \<times> ad list) list \<Rightarrow> string list \<Rightarrow> nat list \<Rightarrow>
     string option \<times> ad list option \<Rightarrow> string option \<times> ad list option" where
  "hierarchyLoop cats hierarchy [] acc = acc"
| "hierarchyLoop cats hierarchy (level # levels) acc =
     (let winnerOverTime = join ''-'' (take (length hierarchy - level) hierarchy);
          result = map_of cats winnerOverTime
      in if result \<noteq> None then (Some winnerOverTime, result)
         else hierarchyLoop cats hierarchy levels (Some winnerOverTime, result))"

text \<open>The loop that marks every ad of the category as not seen.\<close>

fun unmarkAll :: "'a world_scheme \<Rightarrow> jsval \<Rightarrow> ad list \<Rightarrow> error + jsval" where
  "unmarkAll w state [] = Inr state"
| "unmarkAll w state (x # rest) =
     andThen (recordAdUUIDSeen w state (uuid x) (JNum 0)) (\<lambda>state. unmarkAll w state rest)"

definition notServed :: "(string \<times> jsval) list \<Rightarrow> effect" where
  "notServed details = UserModelLog ''Ad not served'' (JObject details)"

text \<open>
  The end of \<open>checkReadyAdServe\<close>, from the comment \<open>select an ad that isn't seen\<close>
  on: an ad is drawn from the pool \<open>adsNotSeen\<close>, checked and shown.
\<close>

definition showFromPool ::
  "'a world_scheme \<Rightarrow> ctx \<Rightarrow> jsval \<Rightarrow> jsval \<Rightarrow> string \<Rightarrow> string list \<Rightarrow> string option \<Rightarrow>
     ad list \<Rightarrow> error + (jsval \<times> ctx)" where
  "showFromPool w c state windowId category hierarchy winnerOverTime adsNotSeen =
     (let arbitraryKey = randomKey w (length adsNotSeen);
          winner = (case winnerOverTime of Some n \<Rightarrow> JStr n | None \<Rightarrow> JUndefined);
          key = (case arbitraryKey of Some i \<Rightarrow> JStr (showNat i) | None \<Rightarrow> JUndefined)
      in case arbitraryKey of
           None \<Rightarrow>
             Inr (state, emit (notServed [(''reason'', JStr ''no ad for winnerOverTime''),
                                          (''category'', JStr category),
                                          (''winnerOverTime'', winner),
                                          (''arbitraryKey'', key)]) c)
         | Some i \<Rightarrow>
             let payload = adsNotSeen ! i;
                 notificationText' = notificationText payload;
                 notificationUrl = notificationURL payload;
                 advertiser' = advertiser payload
             in if \<not> truthy notificationText' \<or> \<not> truthy notificationUrl \<or>
                   \<not> truthy advertiser'
                then Inr (state,
                       emit (notServed [(''reason'', JStr ''incomplete ad information''),
                                        (''category'', JStr category),
                                        (''winnerOverTime'', winner),
                                        (''arbitraryKey'', key),
                                        (''notificationUrl'', notificationUrl),
                                        (''notificationText'', notificationText'),
                                        (''advertiser'', advertiser')]) c)
                else
                  let uuid' = JStr (uuid payload);
                      c = goAheadAndShowTheAd w c windowId advertiser' notificationText'
                            notificationUrl uuid' JUndefined;
                      c = emit (UserModelLog (AD_SHOWN w)
                                  (JObject [(''category'', JStr category),
                                            (''winnerOverTime'', winner),
                                            (''arbitraryKey'', key),
                                            (''notificationUrl'', notificationUrl),
                                            (''notificationText'', notificationText'),
                                            (''advertiser'', advertiser'),
                                            (''uuid'', uuid'),
                                            (''hierarchy'', JArray (map JStr hierarchy))])) c
                  in andThen (appendAdShownToAdHistory (later 2 w) state)
                       (\<lambda>state. Inr (state, c)))"

text \<open>
  \<open>checkReadyAdServe\<close> from \<open>const seen = userModelState.getAdUUIDSeen(state)\<close>
  on, with the \<open>winnerOverTime\<close> and the \<open>result\<close> the lookup ended with: the
  round-robin over the ads of \<open>result\<close>, then the end above.
\<close>

definition roundRobin ::
  "'a world_scheme \<Rightarrow> ctx \<Rightarrow> jsval \<Rightarrow> jsval \<Rightarrow> string \<Rightarrow> string list \<Rightarrow> string option \<Rightarrow>
     ad list \<Rightarrow> error + (jsval \<times> ctx)" where
  "roundRobin w c state windowId category hierarchy winnerOverTime result =
     (let seen = getAdUUIDSeen state;
          adsSeen = filter (\<lambda>x. truthy (map_get seen (uuid x))) result;
          adsNotSeen = filter (\<lambda>x. \<not> truthy (map_get seen (uuid x))) result;
          allSeen = (length adsNotSeen \<le> 0);
          c = (if allSeen
               then emit (UserModelLog ''Ad round-robin''
                            (JObject [(''category'', JStr category),
                                      (''adsSeen'', JArray (map ad_js adsSeen)),
                                      (''adsNotSeen'', JArray (map ad_js adsNotSeen))])) c
               else c)
      in andThen (if allSeen then unmarkAll w state result else Inr state) (\<lambda>state.
           showFromPool w c state windowId category hierarchy winnerOverTime
             (if allSeen then adsSeen else adsNotSeen)))"

text \<open>
  \<open>checkReadyAdServe\<close> from \<open>const hierarchy = category.split('-')\<close> on: the lookup
  of the category, level by level, and the round-robin over the ads found.
\<close>

definition serveFromCategory ::
  "'a world_scheme \<Rightarrow> ctx \<Rightarrow> jsval \<Rightarrow> jsval \<Rightarrow> adFeed \<Rightarrow> string \<Rightarrow> error + (jsval \<times> ctx)" where
  "serveFromCategory w c state windowId feed category =
     (let hierarchy = split CHR ''-'' category;
          (winnerOverTime, result) =
             hierarchyLoop (categories feed) hierarchy [0..<length hierarchy] (None, None)
      in case result of
           None \<Rightarrow>
             Inr (state, emit (notServed [(''reason'', JStr ''no ads for category''),
                                          (''category'', JStr category)]) c)
         | Some result \<Rightarrow>
             roundRobin w c state windowId category hierarchy winnerOverTime result)"

text \<open>
  The gates of \<open>checkReadyAdServe\<close>, the survey that preempts the ads, and the winning
  category. The clock was read twice by the rate limiter, so the survey's \<open>status_at\<close>
  is the third reading. \<open>category\<close> is \<open>catNames[indexOfMax]\<close>, with the empty
  string for \<open>undefined\<close>, which is as falsy. A survey queue that is a map, or a
  survey found that is not an object, is left out.
\<close>

definition checkReadyAdServe ::
  "'a world_scheme \<Rightarrow> ctx \<Rightarrow> jsval \<Rightarrow> jsval \<Rightarrow> error + (jsval \<times> ctx)" where
  "checkReadyAdServe w c state windowId =
     (if noop w c state then Inr (state, c)
      else if \<not> truthy (foregroundP c)
      then Inr (state, emit (notServed [(''reason'', JStr ''not in foreground'')]) c)
      else if \<not> allowedToShowAdBasedOnHistory w state
      then Inr (state, emit (notServed [(''reason'', JStr ''not allowed based on history'')]) c)
      else
        andThen (andThen (im_toJS (getUserSurveyQueue state)) (\<lambda>surveys.
                   case surveys of
                     JArray rows \<Rightarrow> Inr rows
                   | _ \<Rightarrow> Inl Unmodelled)) (\<lambda>surveys.
          case findAvailable surveys of
            Some i \<Rightarrow>
              (case surveys ! i of
                 JObject m \<Rightarrow>
                   let survey = AList.update ''status_at'' (JStr (toISOString w (clock w 2)))
                                  (AList.update ''status'' (JStr ''display'') m);
                       surveys = surveys[i := JObject survey]
                   in andThen (setUserSurveyQueue w state (fromJS (JArray surveys))) (\<lambda>state.
                        let c = goAheadAndShowTheAd w c windowId (map_get survey ''title'')
                                  (map_get survey ''description'') (map_get survey ''url'')
                                  (JStr (generateAdUUIDString w)) (JStr (SURVEYS w));
                            c = emit (UserModelLog (SURVEY_SHOWN w) (JObject survey)) c
                        in Inr (state, c))
               | _ \<Rightarrow> Inl Unmodelled)
          | None \<Rightarrow>
              (case sampleAdFeed c of
                 None \<Rightarrow> Inr (state, emit (notServed [(''reason'', JStr ''no ad catalog'')]) c)
               | Some feed \<Rightarrow>
                   (case priorData c of
                      None \<Rightarrow> Inl TypeError
                    | Some catNames \<Rightarrow>
                        andThen (getPageScoreHistory state) (\<lambda>history.
                          let scores = deriveCategoryScores w history;
                              indexOfMax = vectorIndexOfMax w scores;
                              category =
                                (if 0 \<le> indexOfMax \<and> nat indexOfMax < length catNames
                                 then catNames ! nat indexOfMax else [])
                          in if category = []
                             then Inr (state,
                                    emit (notServed
                                            [(''reason'', JStr ''no category at offset indexOfMax''),
                                             (''indexOfMax'', JNum indexOfMax)]) c)
                             else serveFromCategory w c state windowId feed category)))))"

subsection \<open>Upload of the reporting queue\<close>

text \<open>
  \<open>collectActivity\<close> up to the request. The request is recorded with the value of
  \<open>stamp\<close> that its callback closes over. \<open>events\<close> is the plain copy of the queue
  and \<open>mark\<close> its last row, the same object: assigning \<open>mark.uuid\<close> changes the row
  in \<open>events\<close>. The assignment needs an object: on a primitive it is a TypeError in
  strict mode, on other values it is left out.
\<close>

definition collectActivity ::
  "'a world_scheme \<Rightarrow> ctx \<Rightarrow> jsval \<Rightarrow> error + (jsval \<times> ctx)" where
  "collectActivity w c state =
     (if noop w c state then Inr (state, c)
      else
        let path = ''/v1/reports/'' @ toStringJS (getAdUUID state)
        in andThen (im_toJS (getReportingEventQueue state)) (\<lambda>events.
             let events = rowsOf events;
                 mark = lastRow events
             in if \<not> truthy mark
                then Inr (state, emit (UserModelUploadLogs JNull (oneDay w)) c)
                else
                  andThen (js_prop mark ''stamp'') (\<lambda>stamp.
                  andThen (js_prop mark ''uuid'') (\<lambda>markUuid.
                  andThen
                    (if \<not> truthy markUuid
                     then (case mark of
                             JObject m \<Rightarrow>
                               let mark = JObject (AList.update ''uuid'' (JStr (uuidv4 w)) m);
                                   events = butlast events @ [mark]
                               in andThen (setReportingEventQueue w state
                                             (fromJS (JArray events)))
                                    (\<lambda>state. Inr (state, events, mark))
                           | JArray xs \<Rightarrow> Inl Unmodelled
                           | JList xs \<Rightarrow> Inl Unmodelled
                           | JMap m \<Rightarrow> Inl Unmodelled
                           | _ \<Rightarrow> Inl TypeError)
                     else Inr (state, events, mark))
                    (\<lambda>(state, events, mark).
                       andThen (js_prop mark ''uuid'') (\<lambda>reportId.
                         Inr (state,
                              emit (Roundtrip ''PUT'' path
                                      (JObject
                                         [(''braveVersion'', JStr (braveVersion w)),
                                          (''platform'', JStr (platform w)),
                                          (''reportId'', reportId),
                                          (''reportStamp'', JStr (toISOString w (clock w 0))),
                                          (''events'', JArray events)])
                                      stamp) c)))))))"

text \<open>
  The callback of the upload request, called with \<open>err\<close> and \<open>response\<close> and closing
  over \<open>path\<close> and \<open>stamp\<close>: it dispatches the follow-up \<open>uploadLogs\<close>. On an
  error it reads \<open>response.statusCode\<close>, whatever \<open>response\<close> is.
\<close>

definition collectActivityDone ::
  "'a world_scheme \<Rightarrow> ctx \<Rightarrow> string \<Rightarrow> jsval \<Rightarrow> jsval \<Rightarrow> jsval \<Rightarrow> error + ctx" where
  "collectActivityDone w c path stamp err response =
     andThen
       (if truthy err
        then
          let c = emit (UserModelLog ''Event upload failed''
                          (JObject [(''method'', JStr ''PUT''),
                                    (''server'', JStr (server w)),
                                    (''path'', JStr path),
                                    (''reason'', JStr (toStringJS err))])) c
          in andThen (js_prop response ''statusCode'') (\<lambda>statusCode.
               Inr (c, if \<not> strict_eq statusCode (JNum 400) then JNull else stamp))
        else Inr (c, stamp))
       (\<lambda>(c, stamp).
          Inr (emit (UserModelUploadLogs stamp (if truthy err then oneHour w else oneDay w)) c))"

text \<open>\<open>events.filter(entry => entry.get('stamp') > stamp)\<close> on the rows of a list.\<close>

fun newerRows :: "jsval list \<Rightarrow> jsval \<Rightarrow> error + jsval list" where
  "newerRows [] stamp = Inr []"
| "newerRows (entry # rest) stamp =
     andThen (im_get entry ''stamp'') (\<lambda>entryStamp.
     andThen (newerRows rest stamp) (\<lambda>kept.
       Inr (if js_gt entryStamp stamp then entry # kept else kept)))"

text \<open>\<open>state.size\<close>: the number of keys of the state map, no property of a plain value.\<close>

fun js_size :: "jsval \<Rightarrow> jsval" where
  "js_size (JMap m) = JNum (int (length m))"
| "js_size (JList xs) = JNum (int (length xs))"
| "js_size v = JUndefined"

text \<open>
  \<open>uploadLogs\<close>; the second request, for the surveys, is recorded without payload.
  Filtering a queue that is not an Immutable.List is left out.
\<close>

definition uploadLogs ::
  "'a world_scheme \<Rightarrow> ctx \<Rightarrow> jsval \<Rightarrow> jsval \<Rightarrow> int \<Rightarrow> error + (jsval \<times> ctx)" where
  "uploadLogs w c state stamp retryIn =
     (if noop w c state then Inr (state, c)
      else
        let events = getReportingEventQueue state;
            path = ''/v1/surveys/reporter/'' @ toStringJS (getAdUUID state) @ ''?product=ads-test''
        in andThen
             (if truthy stamp
              then andThen (case events of
                              JList rows \<Rightarrow> newerRows rows stamp
                            | JMap m \<Rightarrow> Inl Unmodelled
                            | JArray rows \<Rightarrow> Inl Unmodelled
                            | _ \<Rightarrow> Inl TypeError) (\<lambda>data.
                   andThen (setReportingEventQueue w state (JList data)) (\<lambda>state.
                     Inr (state,
                          emit (UserModelLog ''Events uploaded''
                                  (JObject [(''previous'', js_size state),
                                            (''current'', JNum (int (length data)))])) c)))
              else Inr (state, c))
             (\<lambda>(state, c).
                let c = (case collectActivityId c of
                           Some t \<Rightarrow> (emit (SetTimeout (Some retryIn)) c)
                                       \<lparr>collectActivityId := Some (Timeout (Some retryIn))\<rparr>
                         | None \<Rightarrow> c);
                    c = emit (Roundtrip ''GET'' path JUndefined JUndefined) c
                in Inr (state, c)))"

section \<open>Drivers and example values\<close>

text \<open>Pushing the items of a list through the ring buffer, one call each, oldest first.\<close>

fun pushAll :: "'a env_scheme \<Rightarrow> jsval \<Rightarrow> string list \<Rightarrow> jsval list \<Rightarrow> nat \<Rightarrow> error + jsval" where
  "pushAll e state key [] maxRows = Inr state"
| "pushAll e state key (item # items) maxRows =
     andThen (appendToRingBufferUnderKey e state key item maxRows)
       (\<lambda>state. pushAll e state key items maxRows)"

text \<open>The list stored under a key path, empty when there is none.\<close>

definition listAt :: "jsval \<Rightarrow> string list \<Rightarrow> jsval list" where
  "listAt state key = (case getIn state key of JList xs \<Rightarrow> xs | _ \<Rightarrow> [])"

text \<open>
  An environment for the examples: caps of 2 ads per hour and 3 per day, and a clock
  standing at 100000 seconds.
\<close>

definition env0 :: env where
  "env0 = \<lparr> ADS_ENABLED = ''ads.enabled'', ADS_LOCALE = ''ads.locale'',
     ADS_PER_DAY = ''ads.per-day'', ADS_PER_HOUR = ''ads.per-hour'',
     ADS_OPERATING_MODE = ''ads.mode'', ADS_PLACE = ''ads.place'',
     getSetting = (\<lambda>k. if k = ''ads.per-hour'' then JNum 2
                        else if k = ''ads.per-day'' then JNum 3 else JUndefined),
     clock = (\<lambda>i. 100000000), isURL = (\<lambda>u. True) \<rparr>"

text \<open>A state with the given enabled flag and ads-shown history.\<close>

definition shownState :: "bool \<Rightarrow> int list \<Rightarrow> jsval" where
  "shownState enabled ts =
     JMap [(''settings'', JMap [(''ads.enabled'', JBool enabled)]),
           (''userModel'', JMap [(''adsShownHistory'', JList (map JNum ts))])]"

text \<open>
  A world for the examples: the settings and clock of \<open>env0\<close>, a random source that
  always draws 0, and stand-ins for the libraries. \<open>world1\<close> is the same one second later.
\<close>

definition stamp0 :: string where
  "stamp0 = ''1970-01-02T03:46:40.000Z''"

definition stamp1 :: string where
  "stamp1 = ''1970-01-02T03:46:41.000Z''"

definition world0 :: world where
  "world0 = \<lparr> ADS_ENABLED = ''ads.enabled'', ADS_LOCALE = ''ads.locale'',
     ADS_PER_DAY = ''ads.per-day'', ADS_PER_HOUR = ''ads.per-hour'',
     ADS_OPERATING_MODE = ''ads.mode'', ADS_PLACE = ''ads.place'',
     getSetting = (\<lambda>k. if k = ''ads.per-hour'' then JNum 2
                        else if k = ''ads.per-day'' then JNum 3 else JUndefined),
     clock = (\<lambda>i. 100000000), isURL = (\<lambda>u. True),
     AD_SHOWN = ''notification-ad-shown'', NOTIFICATION_RESULT = ''notification-result'',
     NOTIFICATION_CLICK = ''notification-click'', NOTIFICATION_TIMEOUT = ''notification-timeout'',
     ADS = ''ads'', SURVEYS = ''surveys'', SURVEY_SHOWN = ''survey-shown'',
     toISOString = (\<lambda>ms. if ms = 100000000 then stamp0 else stamp1),
     parseDate = (\<lambda>v. None),
     uuidv4 = ''110ec58a-a0f2-4ac4-8393-c866d813b8d1'',
     random = (0, 1),
     getHostname = JStr,
     deriveCategoryScores = (\<lambda>h. [1]),
     vectorIndexOfMax = (\<lambda>v. 0),
     initOnlineELPH = JArray [JStr ''init''],
     updateOnlineELPH = (\<lambda>letter mdl. JArray [JStr letter, mdl]),
     alphabetizer = (\<lambda>tvar sch buy a b l r. ''A''),
     testingP = False,
     iconPath = ''img/BAT_icon.png'', braveVersion = ''0.23.0'', platform = ''linux'',
     server = ''https://collector-staging.brave.com'' \<rparr>"

definition world1 :: world where
  "world1 = world0\<lparr>clock := (\<lambda>i. 100001000)\<rparr>"

text \<open>An initialised module in the foreground, without a catalog.\<close>

definition ctx0 :: ctx where
  "ctx0 = \<lparr> foregroundP = JBool True, matrixData = JObject [],
     priorData = Some [''sports-rugby-worldcup'', ''arts''],
     sampleAdFeed = None, lastSingleClassification = None, collectActivityId = None,
     effects = [] \<rparr>"

text \<open>An enabled state with the given reporting queue, and some rows and actions.\<close>

definition queueState :: "jsval list \<Rightarrow> jsval" where
  "queueState rows =
     JMap [(''settings'', JMap [(''ads.enabled'', JBool True)]),
           (''userModel'', JMap [(''reportingEventQueue'', JList rows)])]"

definition focusRow :: "string \<Rightarrow> jsval" where
  "focusRow stamp =
     JMap [(''type'', JStr ''focus''), (''stamp'', JStr stamp), (''tabId'', JStr ''7'')]"

definition blurRow :: "string \<Rightarrow> jsval" where
  "blurRow stamp =
     JMap [(''type'', JStr ''blur''), (''stamp'', JStr stamp), (''tabId'', JStr ''7'')]"

definition focusAction :: jsval where
  "focusAction = JMap [(''tabId'', JNum 7)]"

definition blurAction :: jsval where
  "blurAction = JMap [(''tabValue'', JMap [(''tabId'', JNum 7)])]"

text \<open>
  The action that reports a shown ad, as the reducer receives it: an Immutable.Map all the
  way down, so \<open>hierarchy\<close> is an Immutable.List. \<open>shownRecord\<close> is the record built
  from it at a given stamp, and \<open>shownRow\<close> the row stored for it.
\<close>

definition shownAction :: jsval where
  "shownAction = JMap [(''eventName'', JStr ''notification-ad-shown''),
     (''data'', JMap [(''hierarchy'', JList [JStr ''sports'', JStr ''rugby'']),
                      (''notificationUrl'', JStr ''https://a.example/''),
                      (''uuid'', JStr ''ad-a'')])]"

definition shownRecord :: "string \<Rightarrow> (string \<times> jsval) list" where
  "shownRecord stamp = [(''type'', JStr ''notify''), (''stamp'', JStr stamp),
     (''notificationType'', JStr ''generated''),
     (''notificationClassification'', JList [JStr ''sports'', JStr ''rugby'']),
     (''notificationCatalog'', JStr ''unspecified-catalog''),
     (''notificationUrl'', JStr ''https://a.example/''),
     (''notificationId'', JStr ''ad-a'')]"

definition shownRow :: "string \<Rightarrow> jsval" where
  "shownRow stamp = JMap (shownRecord stamp)"

text \<open>A state with an ad identifier, and one with the search and shopping flags.\<close>

definition uuidState :: "bool \<Rightarrow> jsval" where
  "uuidState enabled =
     JMap [(''settings'', JMap [(''ads.enabled'', JBool enabled)]),
           (''userModel'', JMap [(''adUUID'', JStr ''3b241101-e2bb-4255-8caf-4136c566a962'')])]"

definition flagState :: "bool \<Rightarrow> bool \<Rightarrow> jsval" where
  "flagState search shop =
     JMap [(''settings'', JMap [(''ads.enabled'', JBool True)]),
           (''userModel'', JMap [(''searchActivity'', JBool search),
                                 (''shopActivity'', JBool shop)])]"

text \<open>The prefixes of a category path that the lookup probes, longest first.\<close>

definition prefixes :: "string list \<Rightarrow> string list" where
  "prefixes hierarchy =
     map (\<lambda>level. join ''-'' (take (length hierarchy - level) hierarchy)) [0..<length hierarchy]"

text \<open>
  The conditions under which \<open>checkReadyAdServe\<close> gets as far as the catalog with the
  category \<open>category\<close>: initialised and enabled, in the foreground, within the caps, no
  survey available, a catalog, a page-score history that can be read and a winning
  category name.
\<close>

definition reachesCatalog ::
  "'a world_scheme \<Rightarrow> ctx \<Rightarrow> jsval \<Rightarrow> adFeed \<Rightarrow> string \<Rightarrow> bool" where
  "reachesCatalog w c state feed category =
     (\<not> noop w c state \<and> truthy (foregroundP c) \<and> allowedToShowAdBasedOnHistory w state \<and>
      (case getUserSurveyQueue state of
         JList rows \<Rightarrow> findAvailable (map toJS rows) = None
       | _ \<Rightarrow> False) \<and>
      sampleAdFeed c = Some feed \<and> validateState state = Inr state \<and> category \<noteq> [] \<and>
      (case priorData c of
         None \<Rightarrow> False
       | Some catNames \<Rightarrow>
           (let i = vectorIndexOfMax w (deriveCategoryScores w
                      (makeJS (js_or (getIn state [''userModel'', ''pageScoreHistory''])
                                 (JArray []))))
            in 0 \<le> i \<and> nat i < length catNames \<and> catNames ! nat i = category)))"

text \<open>Two complete ads, catalogs holding them under one category, and states to serve.\<close>

definition adA :: ad where
  "adA = \<lparr> uuid = ''ad-a'', notificationText = JStr ''Watch rugby'',
            notificationURL = JStr ''https://a.example/'', advertiser = JStr ''A Corp'' \<rparr>"

definition adB :: ad where
  "adB = \<lparr> uuid = ''ad-b'', notificationText = JStr ''Play rugby'',
            notificationURL = JStr ''https://b.example/'', advertiser = JStr ''B Corp'' \<rparr>"

definition feedOf :: "string \<Rightarrow> ad list \<Rightarrow> adFeed" where
  "feedOf name ads = \<lparr> categories = [(name, ads)] \<rparr>"

definition ctxWith :: "adFeed \<Rightarrow> ctx" where
  "ctxWith feed = ctx0\<lparr>sampleAdFeed := Some feed\<rparr>"

definition seenState :: "(string \<times> jsval) list \<Rightarrow> jsval" where
  "seenState seen =
     JMap [(''settings'', JMap [(''ads.enabled'', JBool True)]),
           (''userModel'', JMap [(''adsUUIDSeen'', JMap seen)])]"

text \<open>
  What serving an ad sends out: the notification, and the log entry with the category the
  classifier won with, the catalog key served from and the position drawn from the pool.
  \<open>servedState\<close> is \<open>seenState seen\<close> after one ad was shown at the time of \<open>world0\<close>.
\<close>

definition adNotification :: "'a world_scheme \<Rightarrow> jsval \<Rightarrow> ad \<Rightarrow> effect" where
  "adNotification w windowId x =
     NativeNotificationCreate windowId
       (JObject [(''title'', advertiser x), (''message'', notificationText x),
                 (''icon'', JStr (iconPath w)), (''sound'', JBool True),
                 (''timeout'', JNum 60), (''wait'', JBool True),
                 (''uuid'', JStr (uuid x)),
                 (''data'', JObject [(''windowId'', windowId),
                                     (''notificationUrl'', notificationURL x),
                                     (''notificationId'', JStr (ADS w))])])"

definition adShownLog :: "'a world_scheme \<Rightarrow> string \<Rightarrow> string \<Rightarrow> nat \<Rightarrow> ad \<Rightarrow> effect" where
  "adShownLog w category winnerOverTime key x =
     UserModelLog (AD_SHOWN w)
       (JObject [(''category'', JStr category), (''winnerOverTime'', JStr winnerOverTime),
                 (''arbitraryKey'', JStr (showNat key)),
                 (''notificationUrl'', notificationURL x),
                 (''notificationText'', notificationText x),
                 (''advertiser'', advertiser x), (''uuid'', JStr (uuid x)),
                 (''hierarchy'', JArray (map JStr (split CHR ''-'' category)))])"

definition servedState :: "(string \<times> jsval) list \<Rightarrow> jsval" where
  "servedState seen =
     JMap [(''settings'', JMap [(''ads.enabled'', JBool True)]),
           (''userModel'', JMap [(''adsUUIDSeen'', JMap seen),
                                 (''adsShownHistory'', JList [JNum 100000])])]"

text \<open>
  The log entry of a completed round: every ad of the category was seen. The seen-sets in
  which the two example ads are both seen, and both not seen.
\<close>

definition roundRobinLog :: "string \<Rightarrow> ad list \<Rightarrow> effect" where
  "roundRobinLog category result =
     UserModelLog ''Ad round-robin''
       (JObject [(''category'', JStr category),
                 (''adsSeen'', JArray (map ad_js result)),
                 (''adsNotSeen'', JArray [])])"

definition bothSeen :: "(string \<times> jsval) list" where
  "bothSeen = [(''ad-a'', JNum 1), (''ad-b'', JNum 1)]"

definition noneSeen :: "(string \<times> jsval) list" where
  "noneSeen = [(''ad-a'', JNum 0), (''ad-b'', JNum 0)]"

text \<open>
  The log entry of a failed upload, and the module with the upload timer armed.
\<close>

definition uploadFailedLog :: "'a world_scheme \<Rightarrow> string \<Rightarrow> jsval \<Rightarrow> effect" where
  "uploadFailedLog w path err =
     UserModelLog ''Event upload failed''
       (JObject [(''method'', JStr ''PUT''), (''server'', JStr (server w)),
                 (''path'', JStr path), (''reason'', JStr (toStringJS err))])"

definition timerCtx :: ctx where
  "timerCtx = ctx0\<lparr>collectActivityId := Some (Timeout (Some 3600000))\<rparr>"


section \<open>Properties of userModelState.js\<close>

subsection \<open>Rate limiter\<close>

lemma countRecent_nums:
  "countRecent now w (map JNum ts) acc = acc + length (filter (\<lambda>t. now - t < w) ts)"
  by (induction ts arbitrary: acc) auto

text \<open>
  C1. With a history of timestamps \<open>ts\<close> and numeric caps, the eligibility check answers
  true exactly when the number of timestamps less than 3600 seconds old is at most the
  hourly cap and the number less than 86400 seconds old is at most the daily cap. Each
  window is measured from the clock reading of its own count.
\<close>

theorem allowedToShowAdBasedOnHistory_caps:
  assumes hist: "getIn state [''userModel'', ''adsShownHistory''] = JList (map JNum ts)"
    and hc: "getSetting e (ADS_PER_HOUR e) = JNum hourCap"
    and dc: "getSetting e (ADS_PER_DAY e) = JNum dayCap"
  shows "allowedToShowAdBasedOnHistory e state \<longleftrightarrow>
           int (length (filter (\<lambda>t. unixTimeNowSeconds (clock e 0) - t < 3600) ts)) \<le> hourCap \<and>
           int (length (filter (\<lambda>t. unixTimeNowSeconds (clock e 1) - t < 86400) ts)) \<le> dayCap"
  using assms
  by (auto simp: allowedToShowAdBasedOnHistory_def historyRespectsRollingTimeConstraint_def
      js_or_def countRecent_nums Let_def)

text \<open>
  At 100000 seconds with caps 2 and 3: two entries inside the hour (a third exactly 3600
  seconds old) pass, three fail; three entries inside the day (a fourth exactly 86400
  seconds old) pass, four fail.
\<close>

theorem allowedToShowAdBasedOnHistory_caps_witness:
  "getSetting env0 (ADS_PER_HOUR env0) = JNum 2 \<and> getSetting env0 (ADS_PER_DAY env0) = JNum 3 \<and>
   getIn (shownState True [96400, 99000, 99500]) [''userModel'', ''adsShownHistory'']
     = JList (map JNum [96400, 99000, 99500]) \<and>
   allowedToShowAdBasedOnHistory env0 (shownState True [96400, 99000, 99500]) \<and>
   \<not> allowedToShowAdBasedOnHistory env0 (shownState True [96401, 99000, 99500]) \<and>
   allowedToShowAdBasedOnHistory env0 (shownState True [13600, 13601, 13602, 99500]) \<and>
   \<not> allowedToShowAdBasedOnHistory env0 (shownState True [13601, 13602, 13603, 99500])"
  using allowedToShowAdBasedOnHistory_caps [of "shownState True [96400, 99000, 99500]"
          "[96400, 99000, 99500]" env0 2 3]
        allowedToShowAdBasedOnHistory_caps [of "shownState True [96401, 99000, 99500]"
          "[96401, 99000, 99500]" env0 2 3]
        allowedToShowAdBasedOnHistory_caps [of "shownState True [13600, 13601, 13602, 99500]"
          "[13600, 13601, 13602, 99500]" env0 2 3]
        allowedToShowAdBasedOnHistory_caps [of "shownState True [13601, 13602, 13603, 99500]"
          "[13601, 13602, 13603, 99500]" env0 2 3]
  by (simp add: env0_def shownState_def unixTimeNowSeconds_def)

subsection \<open>Ring buffer\<close>

lemma validateState_shape:
  "validateState s = Inr s \<Longrightarrow> \<exists>m um. s = JMap m \<and> map_of m ''userModel'' = Some (JMap um)"
  by (cases s; cases "getIn s [''userModel'']")
     (auto simp: validateState_def makeImmutable_def Let_def split: if_splits option.splits)

lemma setIn_userModel_key:
  assumes "map_of m ''userModel'' = Some (JMap um)"
  shows "setIn (JMap m) [''userModel'', k] v =
           Inr (JMap (AList.update ''userModel'' (JMap (AList.update k v um)) m))"
  using assms by (simp add: setIn_def andThen_def)

lemma getIn_after_set:
  "getIn (JMap (AList.update ''userModel'' (JMap (AList.update k v um)) m)) [''userModel'', k] = v"
  by (simp add: update_conv')

lemma valid_after_set:
  "validateState (JMap (AList.update ''userModel'' (JMap um') m)) =
     Inr (JMap (AList.update ''userModel'' (JMap um') m))"
  by (simp add: validateState_def makeImmutable_def update_conv')

lemma enabled_after_set:
  "getAdEnabledValue e (JMap (AList.update ''userModel'' v m)) = getAdEnabledValue e (JMap m)"
  by (simp add: getAdEnabledValue_def update_conv')

lemma drop_append_short: "d \<le> length q \<Longrightarrow> drop d q @ xs = drop d (q @ xs)"
  by simp

lemma suffix_step:
  "drop (length (drop (Suc (length p) - C) (p @ [x])) + length xs - C)
     (drop (Suc (length p) - C) (p @ [x]) @ xs)
   = drop (length p + length (x # xs) - C) (p @ x # xs)"
proof -
  let ?q = "p @ [x]" and ?d = "Suc (length p) - C"
  have "drop ?d ?q @ xs = drop ?d (?q @ xs)" by (rule drop_append_short) simp
  moreover have "length (drop ?d ?q) + length xs - C + ?d = length p + length (x # xs) - C"
    by (cases "Suc (length p) \<le> C") auto
  ultimately show ?thesis by (simp only: drop_drop append_assoc append_Cons append_Nil)
qed

lemma append_step:
  assumes en: "truthy (getAdEnabledValue e state)" and valid: "validateState state = Inr state"
  shows "\<exists>state'. appendToRingBufferUnderKey e state [''userModel'', name] item C = Inr state' \<and>
           truthy (getAdEnabledValue e state') \<and> validateState state' = Inr state' \<and>
           getIn state' [''userModel'', name] =
             JList (drop (Suc (length (listAt state [''userModel'', name])) - C)
                      (listAt state [''userModel'', name] @ [item]))"
proof -
  from validateState_shape[OF valid] obtain m um where
    s: "state = JMap m" and um: "map_of m ''userModel'' = Some (JMap um)" by blast
  show ?thesis
    using en valid unfolding s
    by (simp add: appendToRingBufferUnderKey_def andThen_def Let_def setIn_userModel_key[OF um]
        getIn_after_set valid_after_set enabled_after_set listAt_def del: getIn.simps)
qed

lemma pushAll_suffix:
  assumes en: "truthy (getAdEnabledValue e state)" and valid: "validateState state = Inr state"
  shows "\<exists>state'. pushAll e state [''userModel'', name] items C = Inr state' \<and>
           truthy (getAdEnabledValue e state') \<and> validateState state' = Inr state' \<and>
           (items \<noteq> [] \<longrightarrow> getIn state' [''userModel'', name] =
             JList (drop (length (listAt state [''userModel'', name]) + length items - C)
                      (listAt state [''userModel'', name] @ items)))"
  using assms
proof (induction items arbitrary: state)
  case Nil
  then show ?case by simp
next
  case (Cons x xs)
  let ?p = "listAt state [''userModel'', name]"
  from append_step[OF Cons.prems, of name x C] obtain s1 where
    s1: "appendToRingBufferUnderKey e state [''userModel'', name] x C = Inr s1"
    and en1: "truthy (getAdEnabledValue e s1)" and v1: "validateState s1 = Inr s1"
    and g1: "getIn s1 [''userModel'', name] = JList (drop (Suc (length ?p) - C) (?p @ [x]))"
    by blast
  from Cons.IH[OF en1 v1] obtain s2 where
    s2: "pushAll e s1 [''userModel'', name] xs C = Inr s2"
    and en2: "truthy (getAdEnabledValue e s2)" and v2: "validateState s2 = Inr s2"
    and g2: "xs \<noteq> [] \<longrightarrow> getIn s2 [''userModel'', name] =
             JList (drop (length (listAt s1 [''userModel'', name]) + length xs - C)
                      (listAt s1 [''userModel'', name] @ xs))" by blast
  have l1: "listAt s1 [''userModel'', name] = drop (Suc (length ?p) - C) (?p @ [x])"
    using g1 by (simp add: listAt_def del: getIn.simps)
  show ?case
  proof (cases "xs = []")
    case True
    then show ?thesis using s1 s2 en1 v1 g1 by (simp add: andThen_def del: getIn.simps)
  next
    case False
    have "drop (length (drop (Suc (length ?p) - C) (?p @ [x])) + length xs - C)
            (drop (Suc (length ?p) - C) (?p @ [x]) @ xs)
          = drop (length ?p + length (x # xs) - C) (?p @ x # xs)"
      by (rule suffix_step)
    then show ?thesis using s1 s2 en2 v2 g2 False l1 by (simp add: andThen_def del: getIn.simps)
  qed
qed

text \<open>
  C2. In an enabled state with a userModel map, one append stores the previous list with
  the item added at the end and \<open>size - C\<close> entries dropped from the front when the size
  exceeds the capacity \<open>C\<close>; pushing a non-empty list of items one by one leaves the last
  \<open>C\<close> entries of the previous list followed by the items, which is the last \<open>C\<close> items
  in their order as soon as \<open>C\<close> or more items were pushed. After an append the page-score
  history has at most 5 rows and the ads-shown history at most 99.
\<close>

theorem ring_buffer_keeps_last_rows:
  assumes en: "truthy (getAdEnabledValue e state)" and valid: "validateState state = Inr state"
  shows "(\<exists>state'. appendToRingBufferUnderKey e state [''userModel'', name] item C = Inr state' \<and>
            getIn state' [''userModel'', name] =
              JList (drop (Suc (length (listAt state [''userModel'', name])) - C)
                       (listAt state [''userModel'', name] @ [item])))
       \<and> (\<exists>state'. pushAll e state [''userModel'', name] items C = Inr state' \<and>
            (items \<noteq> [] \<longrightarrow> getIn state' [''userModel'', name] =
               JList (drop (length (listAt state [''userModel'', name]) + length items - C)
                        (listAt state [''userModel'', name] @ items))) \<and>
            (items \<noteq> [] \<longrightarrow> C \<le> length items \<longrightarrow>
               getIn state' [''userModel'', name] = JList (drop (length items - C) items)))
       \<and> (\<exists>state' h. appendPageScoreToHistoryAndRotate e state pageScore = Inr state' \<and>
            getIn state' [''userModel'', ''pageScoreHistory''] = JList h \<and> length h \<le> 5)
       \<and> (\<exists>state' h. appendAdShownToAdHistory e state = Inr state' \<and>
            getIn state' [''userModel'', ''adsShownHistory''] = JList h \<and> length h \<le> 99)"
proof (intro conjI)
  show "\<exists>state'. appendToRingBufferUnderKey e state [''userModel'', name] item C = Inr state' \<and>
            getIn state' [''userModel'', name] =
              JList (drop (Suc (length (listAt state [''userModel'', name])) - C)
                       (listAt state [''userModel'', name] @ [item]))"
    using append_step[OF en valid, of name item C] by blast
next
  let ?p = "listAt state [''userModel'', name]"
  from pushAll_suffix[OF en valid, of name items C] obtain s' where
    p: "pushAll e state [''userModel'', name] items C = Inr s'"
    and g: "items \<noteq> [] \<longrightarrow> getIn s' [''userModel'', name] =
             JList (drop (length ?p + length items - C) (?p @ items))" by blast
  have "C \<le> length items \<Longrightarrow>
          drop (length ?p + length items - C) (?p @ items) = drop (length items - C) items"
    by simp
  with p g show "\<exists>state'. pushAll e state [''userModel'', name] items C = Inr state' \<and>
            (items \<noteq> [] \<longrightarrow> getIn state' [''userModel'', name] =
               JList (drop (length ?p + length items - C) (?p @ items))) \<and>
            (items \<noteq> [] \<longrightarrow> C \<le> length items \<longrightarrow>
               getIn state' [''userModel'', name] = JList (drop (length items - C) items))"
    by (metis (no_types, lifting))
next
  show "\<exists>state' h. appendPageScoreToHistoryAndRotate e state pageScore = Inr state' \<and>
            getIn state' [''userModel'', ''pageScoreHistory''] = JList h \<and> length h \<le> 5"
    using append_step[OF en valid, of "''pageScoreHistory''" "JList pageScore" 5]
    by (auto simp: appendPageScoreToHistoryAndRotate_def maxRowsInPageScoreHistory_def Let_def
        simp del: getIn.simps)
next
  show "\<exists>state' h. appendAdShownToAdHistory e state = Inr state' \<and>
            getIn state' [''userModel'', ''adsShownHistory''] = JList h \<and> length h \<le> 99"
    using append_step[OF en valid, of "''adsShownHistory''"
        "JNum (unixTimeNowSeconds (clock e 0))" 99]
    by (auto simp: appendAdShownToAdHistory_def maxRowsInAdsShownHistory_def Let_def
        simp del: getIn.simps)
qed

text \<open>
  A history of three rows and a capacity of 5: one push of seven items in a row leaves
  the last five, in order.
\<close>

theorem ring_buffer_keeps_last_rows_witness:
  "truthy (getAdEnabledValue env0 (shownState True [1, 2, 3])) \<and>
   validateState (shownState True [1, 2, 3]) = Inr (shownState True [1, 2, 3]) \<and>
   (\<exists>state'. pushAll env0 (shownState True [1, 2, 3]) [''userModel'', ''adsShownHistory'']
                (map JNum [4, 5, 6, 7, 8, 9, 10]) 5 = Inr state' \<and>
      getIn state' [''userModel'', ''adsShownHistory''] = JList (map JNum [6, 7, 8, 9, 10]))"
  using ring_buffer_keeps_last_rows [of env0 "shownState True [1, 2, 3]" "''adsShownHistory''"
          "JNum 4" 5 "map JNum [4, 5, 6, 7, 8, 9, 10]" "[]"]
  by (simp add: env0_def shownState_def getAdEnabledValue_def validateState_def
      makeImmutable_def listAt_def del: getIn.simps pushAll.simps) (simp)

subsection \<open>The enabled gate\<close>

text \<open>
  C6. While the enabled setting is falsy, each setter of the behavioural state returns
  the state it was given. Erasing the history does not look at the setting: on any state
  with a userModel map it stores the empty map there and leaves the other keys alone.
\<close>

theorem disabled_setters_return_state:
  "(\<not> truthy (getAdEnabledValue e state) \<longrightarrow>
      setUserModelValue e state key v = Inr state \<and>
      appendToRingBufferUnderKey e state path item maxRows = Inr state \<and>
      appendPageScoreToHistoryAndRotate e state pageScore = Inr state \<and>
      appendAdShownToAdHistory e state = Inr state \<and>
      recordAdUUIDSeen e state name v = Inr state \<and>
      flagSearchState e state url score = Inr state \<and>
      unFlagSearchState e state url = Inr state \<and>
      flagShoppingState e state url = Inr state \<and>
      unFlagShoppingState e state = Inr state \<and>
      flagUserBuyingSomething e state url = Inr state \<and>
      setLocale e state v = Inr state \<and>
      setSSID e state v = Inr state \<and>
      setAdUUID e state v = Inr state \<and>
      setUserModelTimingMdl e state v = Inr state \<and>
      setUserSurveyQueue e state v = Inr state \<and>
      setReportingEventQueue e state v = Inr state \<and>
      setLastUserActivity e state = Inr state \<and>
      setLastUserIdleStopTime e state = Inr state \<and>
      setServedAd e state v adClass = Inr state)
   \<and> (validateState state = Inr state \<longrightarrow>
        (\<exists>state'. userModelState_removeAllHistory state = Inr state' \<and>
           getIn state' [''userModel''] = JMap [] \<and>
           (\<forall>k. k \<noteq> ''userModel'' \<longrightarrow> getIn state' [k] = getIn state [k])))"
proof (intro conjI impI)
  assume valid: "validateState state = Inr state"
  from validateState_shape[OF valid] obtain m um where
    s: "state = JMap m" and um: "map_of m ''userModel'' = Some (JMap um)" by blast
  show "\<exists>state'. userModelState_removeAllHistory state = Inr state' \<and>
           getIn state' [''userModel''] = JMap [] \<and>
           (\<forall>k. k \<noteq> ''userModel'' \<longrightarrow> getIn state' [k] = getIn state [k])"
    using valid unfolding s
    by (simp add: userModelState_removeAllHistory_def andThen_def setIn_def update_conv')
qed (simp_all add: setUserModelValue_def appendToRingBufferUnderKey_def
      appendPageScoreToHistoryAndRotate_def appendAdShownToAdHistory_def recordAdUUIDSeen_def
      flagSearchState_def unFlagSearchState_def flagShoppingState_def unFlagShoppingState_def
      flagUserBuyingSomething_def setLocale_def setSSID_def setAdUUID_def
      setUserModelTimingMdl_def setUserSurveyQueue_def setReportingEventQueue_def
      setLastUserActivity_def setLastUserIdleStopTime_def setServedAd_def Let_def)

text \<open>A disabled state with two shown ads: the setters leave it, erasure empties userModel.\<close>

theorem disabled_setters_return_state_witness:
  "\<not> truthy (getAdEnabledValue env0 (shownState False [1, 2])) \<and>
   validateState (shownState False [1, 2]) = Inr (shownState False [1, 2]) \<and>
   setUserModelValue env0 (shownState False [1, 2]) ''locale'' (JStr ''en'')
     = Inr (shownState False [1, 2]) \<and>
   appendAdShownToAdHistory env0 (shownState False [1, 2]) = Inr (shownState False [1, 2]) \<and>
   setAdUUID env0 (shownState False [1, 2]) (JStr ''en'') = Inr (shownState False [1, 2]) \<and>
   userModelState_removeAllHistory (shownState False [1, 2]) =
     Inr (JMap [(''settings'', JMap [(''ads.enabled'', JBool False)]), (''userModel'', JMap [])])"
  using disabled_setters_return_state [of env0 "shownState False [1, 2]" "''locale''"
          "JStr ''en''" "[]" JNull 0 "[]" "[]" "[]" JNull JNull]
  by (simp add: env0_def shownState_def getAdEnabledValue_def validateState_def
      makeImmutable_def userModelState_removeAllHistory_def andThen_def setIn_def)

section \<open>Properties of the ads engine\<close>

subsection \<open>Deduplication of reporting events\<close>

lemmas dedup_example_defs = world0_def world1_def ctx0_def queueState_def focusRow_def
  blurRow_def focusAction_def blurAction_def shownAction_def shownRecord_def shownRow_def
  stamp0_def stamp1_def

lemmas dedup_eval_defs = generateAdReportingEvent_def noop_def getAdEnabledValue_def
  eventData_def andThen_def getReportingEventQueue_def js_or_def lastRow_def
  appendToReportingEventQueue_def setReportingEventQueue_def setIn_def showInt_def
  emit_def sameButStamp_def map_get_def Let_def

text \<open>
  C3. The record of a shown ad holds the classification that the action carries, an
  Immutable.List, while the last row read back from the queue holds it, after \<open>toJS\<close>, as
  a plain array, and the two never compare equal. So a shown ad reported twice, one second
  apart, leaves two rows that differ in the stamp only: the second record is appended and
  logged. Events whose record holds strings only are compared as meant: of two focus
  events of the same tab the second is suppressed, and a blur event after them is appended.
\<close>

theorem reporting_dedup_misses_shown_ad:
  "generateAdReportingEvent world0 ctx0 (queueState []) ''notify'' shownAction
     = Inr (queueState [shownRow stamp0],
            emit (UserModelLog ''Event logged'' (JObject (shownRecord stamp0))) ctx0) \<and>
   generateAdReportingEvent world1 ctx0 (queueState [shownRow stamp0]) ''notify'' shownAction
     = Inr (queueState [shownRow stamp0, shownRow stamp1],
            emit (UserModelLog ''Event logged'' (JObject (shownRecord stamp1))) ctx0) \<and>
   shownRecord stamp1 = AList.update ''stamp'' (JStr stamp1) (shownRecord stamp0) \<and>
   generateAdReportingEvent world0 ctx0 (queueState []) ''focus'' focusAction
     = Inr (queueState [focusRow stamp0],
            emit (UserModelLog ''Event logged'' (toJS (focusRow stamp0))) ctx0) \<and>
   generateAdReportingEvent world1 ctx0 (queueState [focusRow stamp0]) ''focus'' focusAction
     = Inr (queueState [focusRow stamp0], ctx0) \<and>
   generateAdReportingEvent world1 ctx0 (queueState [focusRow stamp0]) ''blur'' blurAction
     = Inr (queueState [focusRow stamp0, blurRow stamp1],
            emit (UserModelLog ''Event logged'' (toJS (blurRow stamp1))) ctx0)"
proof -
  have shown: "generateAdReportingEvent world0 ctx0 (queueState []) ''notify'' shownAction
     = Inr (queueState [shownRow stamp0],
            emit (UserModelLog ''Event logged'' (JObject (shownRecord stamp0))) ctx0)"
    by (simp add: dedup_example_defs dedup_eval_defs)
  have again: "generateAdReportingEvent world1 ctx0 (queueState [shownRow stamp0]) ''notify''
       shownAction
     = Inr (queueState [shownRow stamp0, shownRow stamp1],
            emit (UserModelLog ''Event logged'' (JObject (shownRecord stamp1))) ctx0)"
    by (simp add: dedup_example_defs dedup_eval_defs)
  have same: "shownRecord stamp1 = AList.update ''stamp'' (JStr stamp1) (shownRecord stamp0)"
    by (simp add: shownRecord_def)
  have first: "generateAdReportingEvent world0 ctx0 (queueState []) ''focus'' focusAction
     = Inr (queueState [focusRow stamp0],
            emit (UserModelLog ''Event logged'' (toJS (focusRow stamp0))) ctx0)"
    by (simp add: dedup_example_defs dedup_eval_defs)
  have second: "generateAdReportingEvent world1 ctx0 (queueState [focusRow stamp0]) ''focus''
       focusAction = Inr (queueState [focusRow stamp0], ctx0)"
    by (simp add: dedup_example_defs dedup_eval_defs)
  have third: "generateAdReportingEvent world1 ctx0 (queueState [focusRow stamp0]) ''blur''
       blurAction
     = Inr (queueState [focusRow stamp0, blurRow stamp1],
            emit (UserModelLog ''Event logged'' (toJS (blurRow stamp1))) ctx0)"
    by (simp add: dedup_example_defs dedup_eval_defs)
  from shown again same first second third show ?thesis by (intro conjI)
qed

subsection \<open>The ad identifier\<close>

lemma setIn'_one:
  "setIn' (Some x) [k] v = Inr y \<Longrightarrow> \<exists>um. x = JMap um \<and> y = JMap (AList.update k v um)"
  by (cases x) (auto simp: andThen_def)

lemma setIn_userModel_cases:
  assumes "setIn state [''userModel'', k] v = Inr state'"
  shows "getIn state' [''userModel'', k] = v"
    and "k' \<noteq> k \<Longrightarrow> getIn state' [''userModel'', k'] = getIn state [''userModel'', k']"
    and "k0 \<noteq> ''userModel'' \<Longrightarrow> getIn state' (k0 # ks) = getIn state (k0 # ks)"
proof -
  obtain m where s: "state = JMap m" using assms by (cases state) (auto simp: setIn_def)
  consider (absent) "map_of m ''userModel'' = None"
      "state' = JMap (AList.update ''userModel'' (JMap [(k, v)]) m)"
    | (present) um where "map_of m ''userModel'' = Some (JMap um)"
      "state' = JMap (AList.update ''userModel'' (JMap (AList.update k v um)) m)"
  proof (cases "map_of m ''userModel''")
    case None
    then show ?thesis using assms that(1) unfolding s by (auto simp: setIn_def andThen_def)
  next
    case (Some a)
    then show ?thesis using assms that(2) unfolding s
      by (auto simp: setIn_def andThen_def split: sum.splits dest!: setIn'_one)
  qed
  note cs = this
  show "getIn state' [''userModel'', k] = v"
    using cs by cases (auto simp: update_conv')
  show "k' \<noteq> k \<Longrightarrow> getIn state' [''userModel'', k'] = getIn state [''userModel'', k']"
    using cs unfolding s by cases (auto simp: update_conv')
  show "k0 \<noteq> ''userModel'' \<Longrightarrow> getIn state' (k0 # ks) = getIn state (k0 # ks)"
    using cs unfolding s by cases (auto simp: update_conv')
qed

lemma collectActivityAsNeeded_fresh:
  assumes "getIn state [''userModel'', ''reportingEventQueue''] = JUndefined"
  shows "\<exists>c'. collectActivityAsNeeded w c state adEnabled = Inr (state, c')"
  using assms
  by (auto simp: collectActivityAsNeeded_def getReportingEventQueue_def js_or_def andThen_def
      im_toJS_def lastRow_def Let_def split: option.splits)

lemma collectActivityAsNeeded_state:
  "collectActivityAsNeeded w c state adEnabled = Inr (state', c') \<Longrightarrow> state' = state"
  by (auto simp: collectActivityAsNeeded_def andThen_def Let_def
      split: if_splits option.splits sum.splits)

text \<open>
  C7. An identifier that is present is kept: the generation step returns the state as it
  is, and so does \<open>confirmAdUUIDIfAdEnabled\<close>, which sets the identifier to the value
  drawn from the UUID source only when ads are enabled and there is none. Erasing the
  history of a state with a userModel map leaves, with ads enabled, the value drawn from
  the UUID source as the identifier (non-empty when the drawn value is, and different from
  the previous identifier when the drawn value is), and no identifier with ads disabled.
\<close>

theorem adUUID_generated_once:
  "(getAdUUID state \<noteq> JUndefined \<longrightarrow> generateAndSetAdUUIDButOnlyIfDNE w state = Inr state)
   \<and> (\<forall>state' c'. confirmAdUUIDIfAdEnabled w c state = Inr (state', c') \<longrightarrow>
         (getAdUUID state \<noteq> JUndefined \<or> \<not> truthy (getAdEnabledValue w state)
            \<longrightarrow> state' = state) \<and>
         (getAdUUID state = JUndefined \<and> truthy (getAdEnabledValue w state)
            \<longrightarrow> getAdUUID state' = JStr (uuidv4 w)))
   \<and> (validateState state = Inr state \<longrightarrow>
         (\<exists>state' c'. removeAllHistory w c state = Inr (state', c') \<and>
            (truthy (getAdEnabledValue w state) \<longrightarrow>
               getAdUUID state' = JStr (uuidv4 w) \<and>
               (uuidv4 w \<noteq> [] \<longrightarrow> truthy (getAdUUID state')) \<and>
               (getAdUUID state \<noteq> JStr (uuidv4 w) \<longrightarrow> getAdUUID state' \<noteq> getAdUUID state)) \<and>
            (\<not> truthy (getAdEnabledValue w state) \<longrightarrow> getAdUUID state' = JUndefined)))"
proof (intro conjI allI impI)
  assume "getAdUUID state \<noteq> JUndefined"
  then show "generateAndSetAdUUIDButOnlyIfDNE w state = Inr state"
    by (simp add: generateAndSetAdUUIDButOnlyIfDNE_def)
next
  fix state' c'
  assume run: "confirmAdUUIDIfAdEnabled w c state = Inr (state', c')"
    and keep: "getAdUUID state \<noteq> JUndefined \<or> \<not> truthy (getAdEnabledValue w state)"
  then show "state' = state"
    by (auto simp: confirmAdUUIDIfAdEnabled_def generateAndSetAdUUIDButOnlyIfDNE_def
        andThen_def Let_def dest: collectActivityAsNeeded_state split: if_splits)
next
  fix state' c'
  assume run: "confirmAdUUIDIfAdEnabled w c state = Inr (state', c')"
    and gen: "getAdUUID state = JUndefined \<and> truthy (getAdEnabledValue w state)"
  from run gen obtain s1 where
    s1: "setIn state [''userModel'', ''adUUID''] (JStr (uuidv4 w)) = Inr s1"
    and ca: "collectActivityAsNeeded w c s1 (getAdEnabledValue w state) = Inr (state', c')"
    by (auto simp: confirmAdUUIDIfAdEnabled_def generateAndSetAdUUIDButOnlyIfDNE_def
        generateAndSetAdUUIDRegardless_def generateAdUUIDString_def setAdUUID_def
        andThen_def Let_def split: sum.splits)
  from collectActivityAsNeeded_state[OF ca] setIn_userModel_cases(1)[OF s1]
  show "getAdUUID state' = JStr (uuidv4 w)"
    by (simp add: getAdUUID_def del: getIn.simps)
next
  assume valid: "validateState state = Inr state"
  from validateState_shape[OF valid] obtain m um where
    s: "state = JMap m" and um: "map_of m ''userModel'' = Some (JMap um)" by blast
  let ?s1 = "JMap (AList.update ''userModel'' (JMap []) m)"
  have er: "userModelState_removeAllHistory state = Inr ?s1"
    using valid unfolding s
    by (simp add: userModelState_removeAllHistory_def andThen_def setIn_def)
  have en1: "getAdEnabledValue w ?s1 = getAdEnabledValue w state"
    unfolding s by (rule enabled_after_set)
  have u1: "getAdUUID ?s1 = JUndefined"
    by (simp add: getAdUUID_def update_conv')
  show "\<exists>state' c'. removeAllHistory w c state = Inr (state', c') \<and>
            (truthy (getAdEnabledValue w state) \<longrightarrow>
               getAdUUID state' = JStr (uuidv4 w) \<and>
               (uuidv4 w \<noteq> [] \<longrightarrow> truthy (getAdUUID state')) \<and>
               (getAdUUID state \<noteq> JStr (uuidv4 w) \<longrightarrow> getAdUUID state' \<noteq> getAdUUID state)) \<and>
            (\<not> truthy (getAdEnabledValue w state) \<longrightarrow> getAdUUID state' = JUndefined)"
  proof (cases "truthy (getAdEnabledValue w state)")
    case True
    let ?s2 = "JMap (AList.update ''userModel'' (JMap [(''adUUID'', JStr (uuidv4 w))]) m)"
    have set: "setAdUUID w ?s1 (JStr (uuidv4 w)) = Inr ?s2"
      using True en1 by (simp add: setAdUUID_def setIn_def andThen_def update_conv')
    have "getIn ?s2 [''userModel'', ''reportingEventQueue''] = JUndefined"
      by (simp add: update_conv')
    from collectActivityAsNeeded_fresh[OF this, of w c "getAdEnabledValue w ?s1"]
    obtain c' where "collectActivityAsNeeded w c ?s2 (getAdEnabledValue w ?s1) = Inr (?s2, c')"
      by blast
    then have "removeAllHistory w c state = Inr (?s2, c')"
      using er True en1 u1 set
      by (simp add: removeAllHistory_def andThen_def confirmAdUUIDIfAdEnabled_def Let_def
          generateAndSetAdUUIDButOnlyIfDNE_def generateAndSetAdUUIDRegardless_def
          generateAdUUIDString_def del: getIn.simps)
    moreover have "getAdUUID ?s2 = JStr (uuidv4 w)"
      by (simp add: getAdUUID_def update_conv')
    ultimately show ?thesis using True by auto
  next
    case False
    have "getIn ?s1 [''userModel'', ''reportingEventQueue''] = JUndefined"
      by (simp add: update_conv')
    from collectActivityAsNeeded_fresh[OF this, of w c "getAdEnabledValue w ?s1"]
    obtain c' where "collectActivityAsNeeded w c ?s1 (getAdEnabledValue w ?s1) = Inr (?s1, c')"
      by blast
    then have "removeAllHistory w c state = Inr (?s1, c')"
      using er False en1
      by (simp add: removeAllHistory_def andThen_def confirmAdUUIDIfAdEnabled_def Let_def
          del: getIn.simps)
    then show ?thesis using False u1 by auto
  qed
qed

lemmas identity_eval_defs = removeAllHistory_def userModelState_removeAllHistory_def
  validateState_def makeImmutable_def im_toJS_def confirmAdUUIDIfAdEnabled_def generateAndSetAdUUIDButOnlyIfDNE_def
  generateAndSetAdUUIDRegardless_def generateAdUUIDString_def setAdUUID_def getAdUUID_def
  collectActivityAsNeeded_def getAdEnabledValue_def getReportingEventQueue_def js_or_def
  andThen_def setIn_def lastRow_def emit_def oneHour_def Let_def

text \<open>
  Erasing the history of a state that has an identifier: enabled, the identifier is the
  drawn one and the upload timer is armed at one hour; disabled, there is none.
\<close>

theorem adUUID_generated_once_witness:
  "validateState (uuidState True) = Inr (uuidState True) \<and>
   truthy (getAdEnabledValue world0 (uuidState True)) \<and>
   getAdUUID (uuidState True) = JStr ''3b241101-e2bb-4255-8caf-4136c566a962'' \<and>
   confirmAdUUIDIfAdEnabled world0 ctx0 (uuidState True)
     = Inr (uuidState True, (emit (SetTimeout (Some 3600000)) ctx0)
                              \<lparr>collectActivityId := Some (Timeout (Some 3600000))\<rparr>) \<and>
   removeAllHistory world0 ctx0 (uuidState True)
     = Inr (JMap [(''settings'', JMap [(''ads.enabled'', JBool True)]),
                  (''userModel'', JMap [(''adUUID'', JStr ''110ec58a-a0f2-4ac4-8393-c866d813b8d1'')])],
            (emit (SetTimeout (Some 3600000)) ctx0)
              \<lparr>collectActivityId := Some (Timeout (Some 3600000))\<rparr>) \<and>
   validateState (uuidState False) = Inr (uuidState False) \<and>
   \<not> truthy (getAdEnabledValue world0 (uuidState False)) \<and>
   removeAllHistory world0 ctx0 (uuidState False)
     = Inr (JMap [(''settings'', JMap [(''ads.enabled'', JBool False)]),
                  (''userModel'', JMap [])], ctx0)"
  using adUUID_generated_once [of "uuidState True" world0 ctx0]
        adUUID_generated_once [of "uuidState False" world0 ctx0]
  by (simp add: uuidState_def world0_def ctx0_def identity_eval_defs)

subsection \<open>Timing model\<close>

lemma stateToLetterStd_throws: "stateToLetterStd w state = Inl AssertionError"
  by (auto simp: stateToLetterStd_def topicVariance_def getPageScoreHistory_def
      getSearchState_def validateState_def makeImmutable_def andThen_def Let_def
      split: sum.splits if_splits)

lemma js_length_empty: "strict_eq (js_length v) (JNum 0) \<longleftrightarrow> v = JArray [] \<or> v = JStr []"
  by (cases v) auto

lemma timingModel_empty:
  "strict_eq (js_length (getUserModelTimingMdl state)) (JNum 0)
     \<longleftrightarrow> getUserModelTimingMdl state = JArray []"
  by (cases "getIn state [''userModel'', ''timingModel'']")
     (auto simp: js_length_empty getUserModelTimingMdl_def js_or_def makeJS_def
        simp del: getIn.simps js_length.simps)

text \<open>
  C9. For a state that passes the gate, a call without the symbol raises a TypeError and a
  call with the empty symbol raises the assertion error of \<open>validateState\<close>; neither
  returns a state. A call with a non-empty symbol stores under \<open>timingModel\<close> the update
  of the stored model, or of a newly initialised one when there is none, by that symbol
  (the model is read as plain JavaScript and stored as an Immutable value).
\<close>

theorem updateTimingModel_standard_path_throws:
  assumes ready: "\<not> noop w c state"
  shows "updateTimingModel w c state None = Inl TypeError
       \<and> updateTimingModel w c state (Some []) = Inl AssertionError
       \<and> (sp \<noteq> [] \<longrightarrow>
            updateTimingModel w c state (Some sp) =
              setIn state [''userModel'', ''timingModel'']
                (makeImmutable (updateOnlineELPH w sp
                   (if getUserModelTimingMdl state = JArray [] then initOnlineELPH w
                    else getUserModelTimingMdl state))))
       \<and> (sp \<noteq> [] \<longrightarrow> validateState state = Inr state \<longrightarrow>
            (\<exists>state'. updateTimingModel w c state (Some sp) = Inr state' \<and>
               getIn state' [''userModel'', ''timingModel''] =
                 makeImmutable (updateOnlineELPH w sp
                   (if getUserModelTimingMdl state = JArray [] then initOnlineELPH w
                    else getUserModelTimingMdl state))))"
proof (intro conjI impI)
  show "updateTimingModel w c state None = Inl TypeError"
    using ready by (simp add: updateTimingModel_def andThen_def)
  show "updateTimingModel w c state (Some []) = Inl AssertionError"
    using ready by (simp add: updateTimingModel_def andThen_def stateToLetterStd_throws)
  have en: "truthy (getAdEnabledValue w state)" using ready by (simp add: noop_def)
  show upd: "updateTimingModel w c state (Some sp) =
              setIn state [''userModel'', ''timingModel'']
                (makeImmutable (updateOnlineELPH w sp
                   (if getUserModelTimingMdl state = JArray [] then initOnlineELPH w
                    else getUserModelTimingMdl state)))" if "sp \<noteq> []"
    using ready en that
    by (simp add: updateTimingModel_def andThen_def Let_def setUserModelTimingMdl_def
        timingModel_empty del: getIn.simps)
  show "\<exists>state'. updateTimingModel w c state (Some sp) = Inr state' \<and>
               getIn state' [''userModel'', ''timingModel''] =
                 makeImmutable (updateOnlineELPH w sp
                   (if getUserModelTimingMdl state = JArray [] then initOnlineELPH w
                    else getUserModelTimingMdl state))"
    if ne: "sp \<noteq> []" and valid: "validateState state = Inr state"
  proof -
    from validateState_shape[OF valid] obtain m um where
      s: "state = JMap m" and um: "map_of m ''userModel'' = Some (JMap um)" by blast
    show ?thesis
      unfolding upd[OF ne] unfolding s setIn_userModel_key[OF um]
      by (simp add: getIn_after_set del: getIn.simps)
  qed
qed

text \<open>
  An enabled, initialised state without a timing model: the calls without a symbol and
  with the empty symbol throw, the call with the symbol \<open>x\<close> initialises and updates.
\<close>

theorem updateTimingModel_standard_path_throws_witness:
  "\<not> noop world0 ctx0 (queueState []) \<and>
   validateState (queueState []) = Inr (queueState []) \<and>
   updateTimingModel world0 ctx0 (queueState []) None = Inl TypeError \<and>
   updateTimingModel world0 ctx0 (queueState []) (Some []) = Inl AssertionError \<and>
   updateTimingModel world0 ctx0 (queueState []) (Some ''x'')
     = Inr (JMap [(''settings'', JMap [(''ads.enabled'', JBool True)]),
                  (''userModel'', JMap [(''reportingEventQueue'', JList []),
                     (''timingModel'', JList [JStr ''x'', JList [JStr ''init'']])])])"
proof -
  have ready: "\<not> noop world0 ctx0 (queueState [])"
    by (simp add: noop_def world0_def ctx0_def queueState_def getAdEnabledValue_def)
  have valid: "validateState (queueState []) = Inr (queueState [])"
    by (simp add: validateState_def makeImmutable_def queueState_def)
  from updateTimingModel_standard_path_throws[OF ready, of "''x''"] ready valid
  show ?thesis
    by (simp add: world0_def queueState_def getUserModelTimingMdl_def js_or_def makeJS_def
        makeImmutable_def setIn_def andThen_def)
qed

subsection \<open>Shopping detection\<close>

text \<open>
  C10. For an enabled, initialised state with a userModel map and a URL whose host name is
  not \<open>amazon.com\<close>, \<open>testShoppingData\<close> is \<open>unFlagShoppingState\<close> when the
  search-activity flag is truthy, which sets the shopping flag to false, and returns the
  state as it is otherwise, whatever the shopping flag.
\<close>

theorem testShoppingData_guard_reads_search_flag:
  assumes ready: "\<not> noop w c state"
    and valid: "validateState state = Inr state"
    and host: "getHostname w url \<noteq> JStr ''amazon.com''"
  shows "(truthy (getIn state [''userModel'', ''searchActivity'']) \<longrightarrow>
            testShoppingData w c state url = unFlagShoppingState w state \<and>
            (\<exists>state'. testShoppingData w c state url = Inr state' \<and>
               getIn state' [''userModel'', ''shopActivity''] = JBool False))
       \<and> (\<not> truthy (getIn state [''userModel'', ''searchActivity'']) \<longrightarrow>
            testShoppingData w c state url = Inr state)"
proof -
  have ne: "\<not> strict_eq (getHostname w url) (JStr ''amazon.com'')"
    using host by (cases "getHostname w url") auto
  have en: "truthy (getAdEnabledValue w state)" using ready by (simp add: noop_def)
  from validateState_shape[OF valid] obtain m um where
    s: "state = JMap m" and um: "map_of m ''userModel'' = Some (JMap um)" by blast
  have t: "testShoppingData w c state url =
             (if truthy (getIn state [''userModel'', ''searchActivity''])
              then unFlagShoppingState w state else Inr state)"
    using ready valid ne
    by (simp add: testShoppingData_def getSearchState_def andThen_def Let_def del: getIn.simps)
  have u: "\<exists>state'. unFlagShoppingState w state = Inr state' \<and>
             getIn state' [''userModel'', ''shopActivity''] = JBool False"
    using en valid unfolding s
    by (simp add: unFlagShoppingState_def andThen_def setIn_userModel_key[OF um]
        getIn_after_set del: getIn.simps)
  show ?thesis using t u by auto
qed

text \<open>
  Leaving a shopping site for another site with the shopping flag set: the flag stays
  while the search flag is off, and is cleared while the search flag is on.
\<close>

theorem testShoppingData_guard_reads_search_flag_witness:
  "\<not> noop world0 ctx0 (flagState False True) \<and>
   validateState (flagState False True) = Inr (flagState False True) \<and>
   getHostname world0 ''example.com'' \<noteq> JStr ''amazon.com'' \<and>
   testShoppingData world0 ctx0 (flagState False True) ''example.com''
     = Inr (flagState False True) \<and>
   testShoppingData world0 ctx0 (flagState True True) ''example.com''
     = Inr (flagState True False)"
proof -
  have ready: "\<not> noop world0 ctx0 (flagState b True)" for b
    by (simp add: noop_def world0_def ctx0_def flagState_def getAdEnabledValue_def)
  have valid: "validateState (flagState b True) = Inr (flagState b True)" for b
    by (simp add: validateState_def makeImmutable_def flagState_def)
  have host: "getHostname world0 ''example.com'' \<noteq> JStr ''amazon.com''"
    by (simp add: world0_def)
  from testShoppingData_guard_reads_search_flag[OF ready valid host, of False]
       testShoppingData_guard_reads_search_flag[OF ready valid host, of True]
       ready valid host
  show ?thesis
    by (simp add: flagState_def unFlagShoppingState_def getAdEnabledValue_def world0_def
        validateState_def makeImmutable_def andThen_def setIn_def)
qed

subsection \<open>Ad selection: the category lookup\<close>

lemma checkReadyAdServe_reaches:
  assumes "reachesCatalog w c state feed category"
  shows "checkReadyAdServe w c state windowId = serveFromCategory w c state windowId feed category"
proof -
  let ?history = "makeJS (js_or (getIn state [''userModel'', ''pageScoreHistory'']) (JArray []))"
  from assms obtain rows catNames where
    g: "\<not> noop w c state" "truthy (foregroundP c)" "allowedToShowAdBasedOnHistory w state"
       "getUserSurveyQueue state = JList rows" "findAvailable (map toJS rows) = None"
       "sampleAdFeed c = Some feed" "validateState state = Inr state" "category \<noteq> []"
       "priorData c = Some catNames"
    and i: "0 \<le> vectorIndexOfMax w (deriveCategoryScores w ?history)"
           "nat (vectorIndexOfMax w (deriveCategoryScores w ?history)) < length catNames"
           "catNames ! nat (vectorIndexOfMax w (deriveCategoryScores w ?history)) = category"
    by (auto simp: reachesCatalog_def Let_def split: jsval.splits option.splits)
  show ?thesis
    using g i
    by (simp add: checkReadyAdServe_def andThen_def getPageScoreHistory_def im_toJS_def Let_def
        del: getIn.simps)
qed

lemma hierarchyLoop_find:
  "hierarchyLoop cats h levels acc =
     (case find (\<lambda>p. map_of cats p \<noteq> None)
             (map (\<lambda>level. join ''-'' (take (length h - level) h)) levels) of
        Some p \<Rightarrow> (Some p, map_of cats p)
      | None \<Rightarrow> if levels = [] then acc
                else (Some (join ''-'' (take (length h - last levels) h)), None))"
  by (induction levels arbitrary: acc) (auto simp: Let_def split: option.splits)

lemma find_None_all: "find P xs = None \<longleftrightarrow> (\<forall>x \<in> set xs. \<not> P x)"
  by (induction xs) auto

text \<open>
  C4. The lookup returns the first of the prefixes of the category path, longest first,
  that is a key of the catalog, with its ads, and no ads when none is. The path
  \<open>sports-rugby-worldcup\<close> is probed as itself, \<open>sports-rugby\<close> and \<open>sports\<close>. When
  a prefix is a key, the selection goes on, from the first such prefix, with the ads the
  catalog holds under it: the cycle is the round-robin over that bucket, also as the
  result of \<open>checkReadyAdServe\<close> when it reaches the catalog with that category. When no
  prefix is a key, the cycle ends with the log entry for a category without ads and the
  state it was given, again also as the result of \<open>checkReadyAdServe\<close>.
\<close>

theorem hierarchical_fallback:
  "(\<forall>p. find (\<lambda>p. map_of cats p \<noteq> None) (prefixes h) = Some p \<longrightarrow>
        hierarchyLoop cats h [0..<length h] (None, None) = (Some p, map_of cats p))
   \<and> (find (\<lambda>p. map_of cats p \<noteq> None) (prefixes h) = None \<longrightarrow>
        snd (hierarchyLoop cats h [0..<length h] (None, None)) = None)
   \<and> prefixes (split CHR ''-'' ''sports-rugby-worldcup'')
        = [''sports-rugby-worldcup'', ''sports-rugby'', ''sports'']
   \<and> (\<forall>p result.
        find (\<lambda>p. map_of (categories feed) p \<noteq> None) (prefixes (split CHR ''-'' category))
          = Some p \<longrightarrow>
        map_of (categories feed) p = Some result \<longrightarrow>
          serveFromCategory w c state windowId feed category =
            roundRobin w c state windowId category (split CHR ''-'' category) (Some p) result \<and>
          (reachesCatalog w c state feed category \<longrightarrow>
             checkReadyAdServe w c state windowId =
               roundRobin w c state windowId category (split CHR ''-'' category) (Some p) result))
   \<and> ((\<forall>p \<in> set (prefixes (split CHR ''-'' category)). map_of (categories feed) p = None) \<longrightarrow>
        serveFromCategory w c state windowId feed category =
          Inr (state, emit (notServed [(''reason'', JStr ''no ads for category''),
                                       (''category'', JStr category)]) c) \<and>
        (reachesCatalog w c state feed category \<longrightarrow>
           checkReadyAdServe w c state windowId =
             Inr (state, emit (notServed [(''reason'', JStr ''no ads for category''),
                                          (''category'', JStr category)]) c)))"
proof (intro conjI allI impI)
  fix p
  assume "find (\<lambda>p. map_of cats p \<noteq> None) (prefixes h) = Some p"
  then show "hierarchyLoop cats h [0..<length h] (None, None) = (Some p, map_of cats p)"
    by (simp add: hierarchyLoop_find prefixes_def)
next
  assume "find (\<lambda>p. map_of cats p \<noteq> None) (prefixes h) = None"
  then show "snd (hierarchyLoop cats h [0..<length h] (None, None)) = None"
    by (simp add: hierarchyLoop_find prefixes_def)
next
  show "prefixes (split CHR ''-'' ''sports-rugby-worldcup'')
        = [''sports-rugby-worldcup'', ''sports-rugby'', ''sports'']"
    by (simp add: prefixes_def upt_rec)
next
  fix p result
  let ?h = "split CHR ''-'' category"
  assume f: "find (\<lambda>p. map_of (categories feed) p \<noteq> None) (prefixes ?h) = Some p"
    and m: "map_of (categories feed) p = Some result"
  have "hierarchyLoop (categories feed) ?h [0..<length ?h] (None, None) = (Some p, Some result)"
    using f m by (simp add: hierarchyLoop_find prefixes_def)
  then show served: "serveFromCategory w c state windowId feed category =
            roundRobin w c state windowId category ?h (Some p) result"
    by (simp add: serveFromCategory_def Let_def)
  assume "reachesCatalog w c state feed category"
  then show "checkReadyAdServe w c state windowId =
               roundRobin w c state windowId category ?h (Some p) result"
    using served by (simp add: checkReadyAdServe_reaches)
next
  assume none: "\<forall>p \<in> set (prefixes (split CHR ''-'' category)). map_of (categories feed) p = None"
  let ?h = "split CHR ''-'' category"
  have "find (\<lambda>p. map_of (categories feed) p \<noteq> None) (prefixes ?h) = None"
    using none by (simp add: find_None_all)
  then have "snd (hierarchyLoop (categories feed) ?h [0..<length ?h] (None, None)) = None"
    by (simp add: hierarchyLoop_find prefixes_def)
  then obtain wot where
    "hierarchyLoop (categories feed) ?h [0..<length ?h] (None, None) = (wot, None)"
    by (cases "hierarchyLoop (categories feed) ?h [0..<length ?h] (None, None)") auto
  then show served: "serveFromCategory w c state windowId feed category =
          Inr (state, emit (notServed [(''reason'', JStr ''no ads for category''),
                                       (''category'', JStr category)]) c)"
    by (simp add: serveFromCategory_def Let_def)
  assume "reachesCatalog w c state feed category"
  then show "checkReadyAdServe w c state windowId =
             Inr (state, emit (notServed [(''reason'', JStr ''no ads for category''),
                                          (''category'', JStr category)]) c)"
    using served by (simp add: checkReadyAdServe_reaches)
qed

lemmas serve_example_defs = world0_def ctx0_def ctxWith_def feedOf_def seenState_def adA_def
  adB_def bothSeen_def noneSeen_def

lemmas reaches_eval_defs = reachesCatalog_def noop_def getAdEnabledValue_def
  allowedToShowAdBasedOnHistory_def historyRespectsRollingTimeConstraint_def
  getUserSurveyQueue_def js_or_def validateState_def makeImmutable_def makeJS_def Let_def

lemmas serve_eval_defs = roundRobin_def showFromPool_def randomKey_def goAheadAndShowTheAd_def
  getAdUUIDSeen_def js_or_def map_get_def appendAdShownToAdHistory_def
  appendToRingBufferUnderKey_def getAdEnabledValue_def validateState_def makeImmutable_def
  unixTimeNowSeconds_def maxRowsInAdsShownHistory_def later_def setIn_def andThen_def
  emit_def adNotification_def adShownLog_def servedState_def Let_def

text \<open>
  The page history points at \<open>sports-rugby-worldcup\<close>. With a catalog that has only
  \<open>sports\<close>, holding two ads not seen yet, the cycle serves the first ad of that bucket:
  the notification goes out, the log entry names \<open>sports\<close> as the key served from, and
  the time is added to the history of shown ads. With a catalog that has only \<open>arts\<close>
  the cycle ends unserved and the state is the one given.
\<close>

theorem hierarchical_fallback_witness:
  "find (\<lambda>p. map_of (categories (feedOf ''sports'' [adA, adB])) p \<noteq> None)
     (prefixes (split CHR ''-'' ''sports-rugby-worldcup'')) = Some ''sports'' \<and>
   map_of (categories (feedOf ''sports'' [adA, adB])) ''sports'' = Some [adA, adB] \<and>
   hierarchyLoop (categories (feedOf ''sports'' [adA, adB]))
     (split CHR ''-'' ''sports-rugby-worldcup'')
     [0..<length (split CHR ''-'' ''sports-rugby-worldcup'')] (None, None)
     = (Some ''sports'', Some [adA, adB]) \<and>
   reachesCatalog world0 (ctxWith (feedOf ''sports'' [adA, adB])) (seenState [])
     (feedOf ''sports'' [adA, adB]) ''sports-rugby-worldcup'' \<and>
   checkReadyAdServe world0 (ctxWith (feedOf ''sports'' [adA, adB])) (seenState []) JNull
     = Inr (servedState [],
            emit (adShownLog world0 ''sports-rugby-worldcup'' ''sports'' 0 adA)
              (emit (adNotification world0 JNull adA) (ctxWith (feedOf ''sports'' [adA, adB])))) \<and>
   reachesCatalog world0 (ctxWith (feedOf ''arts'' [adA])) (seenState []) (feedOf ''arts'' [adA])
     ''sports-rugby-worldcup'' \<and>
   find (\<lambda>p. map_of (categories (feedOf ''arts'' [adA])) p \<noteq> None)
     (prefixes (split CHR ''-'' ''sports-rugby-worldcup'')) = None \<and>
   checkReadyAdServe world0 (ctxWith (feedOf ''arts'' [adA])) (seenState []) JNull
     = Inr (seenState [],
            emit (notServed [(''reason'', JStr ''no ads for category''),
                             (''category'', JStr ''sports-rugby-worldcup'')])
              (ctxWith (feedOf ''arts'' [adA])))"
proof -
  let ?cat = "''sports-rugby-worldcup''"
  let ?h = "split CHR ''-'' ?cat"
  let ?sports = "feedOf ''sports'' [adA, adB]"
  let ?arts = "feedOf ''arts'' [adA]"
  have pre: "prefixes ?h = [''sports-rugby-worldcup'', ''sports-rugby'', ''sports'']"
    by (simp add: prefixes_def upt_rec)
  have f: "find (\<lambda>p. map_of (categories ?sports) p \<noteq> None) (prefixes ?h) = Some ''sports''"
    unfolding pre by (simp add: feedOf_def)
  have m: "map_of (categories ?sports) ''sports'' = Some [adA, adB]"
    by (simp add: feedOf_def)
  have n: "find (\<lambda>p. map_of (categories ?arts) p \<noteq> None) (prefixes ?h) = None"
    unfolding pre by (simp add: feedOf_def)
  have na: "\<forall>p \<in> set (prefixes ?h). map_of (categories ?arts) p = None"
    unfolding pre by (simp add: feedOf_def)
  have rs: "reachesCatalog world0 (ctxWith ?sports) (seenState []) ?sports ?cat"
    by (simp add: serve_example_defs reaches_eval_defs)
  have ra: "reachesCatalog world0 (ctxWith ?arts) (seenState []) ?arts ?cat"
    by (simp add: serve_example_defs reaches_eval_defs)
  note sports = hierarchical_fallback[where cats="categories ?sports" and h="?h"
         and category="?cat" and feed="?sports"
         and w=world0 and c="ctxWith ?sports" and state="seenState []" and windowId=JNull]
  note arts = hierarchical_fallback[where cats="categories ?arts" and h="?h"
         and category="?cat" and feed="?arts"
         and w=world0 and c="ctxWith ?arts" and state="seenState []" and windowId=JNull]
  from sports f have a: "hierarchyLoop (categories ?sports) ?h [0..<length ?h] (None, None)
      = (Some ''sports'', map_of (categories ?sports) ''sports'')"
    by blast
  have l: "hierarchyLoop (categories ?sports) ?h [0..<length ?h] (None, None)
      = (Some ''sports'', Some [adA, adB])"
    by (simp only: a m)
  from sports f m rs have go: "checkReadyAdServe world0 (ctxWith ?sports) (seenState []) JNull
     = roundRobin world0 (ctxWith ?sports) (seenState []) JNull ?cat ?h (Some ''sports'')
         [adA, adB]"
    by blast
  have rr: "roundRobin world0 (ctxWith ?sports) (seenState []) JNull ?cat ?h (Some ''sports'')
         [adA, adB]
     = Inr (servedState [],
            emit (adShownLog world0 ?cat ''sports'' 0 adA)
              (emit (adNotification world0 JNull adA) (ctxWith ?sports)))"
    by (simp add: serve_example_defs serve_eval_defs)
  have s: "checkReadyAdServe world0 (ctxWith ?sports) (seenState []) JNull
     = Inr (servedState [],
            emit (adShownLog world0 ?cat ''sports'' 0 adA)
              (emit (adNotification world0 JNull adA) (ctxWith ?sports)))"
    by (simp only: go rr)
  from arts na ra have c: "checkReadyAdServe world0 (ctxWith ?arts) (seenState []) JNull
     = Inr (seenState [],
            emit (notServed [(''reason'', JStr ''no ads for category''),
                             (''category'', JStr ''sports-rugby-worldcup'')])
              (ctxWith ?arts))"
    by blast
  from f m l rs s ra n c show ?thesis by (intro conjI)
qed

subsection \<open>Ad selection: the round-robin\<close>

lemma setIn_top: "setIn (JMap sm) [u] v = Inr (JMap (AList.update u v sm))"
  by (simp add: setIn_def andThen_def)

lemma recordAdUUIDSeen_ok:
  assumes en: "truthy (getAdEnabledValue w state)" and valid: "validateState state = Inr state"
    and seen: "getIn state [''userModel'', ''adsUUIDSeen''] = JMap sm"
  shows "\<exists>state'. recordAdUUIDSeen w state u v = Inr state' \<and>
           truthy (getAdEnabledValue w state') \<and> validateState state' = Inr state' \<and>
           getIn state' [''userModel'', ''adsUUIDSeen''] = JMap (AList.update u v sm)"
proof -
  from validateState_shape[OF valid] obtain m um where
    s: "state = JMap m" and um: "map_of m ''userModel'' = Some (JMap um)" by blast
  show ?thesis
    using en seen unfolding s
    by (simp add: recordAdUUIDSeen_def js_or_def Let_def andThen_def setIn_top
        setIn_userModel_key[OF um] getIn_after_set valid_after_set enabled_after_set
        del: getIn.simps)
qed

lemma unmarkAll_ok:
  assumes en: "truthy (getAdEnabledValue w state)" and valid: "validateState state = Inr state"
    and seen: "getIn state [''userModel'', ''adsUUIDSeen''] = JMap sm"
  shows "\<exists>state1 sm1. unmarkAll w state xs = Inr state1 \<and>
           truthy (getAdEnabledValue w state1) \<and> validateState state1 = Inr state1 \<and>
           getIn state1 [''userModel'', ''adsUUIDSeen''] = JMap sm1 \<and>
           (\<forall>u. map_get sm1 u = (if u \<in> uuid ` set xs then JNum 0 else map_get sm u))"
  using assms
proof (induction xs arbitrary: state sm)
  case Nil
  then show ?case by simp
next
  case (Cons x xs)
  from recordAdUUIDSeen_ok[OF Cons.prems, of "uuid x" "JNum 0"] obtain s1 where
    r: "recordAdUUIDSeen w state (uuid x) (JNum 0) = Inr s1"
    and en1: "truthy (getAdEnabledValue w s1)" and v1: "validateState s1 = Inr s1"
    and g1: "getIn s1 [''userModel'', ''adsUUIDSeen''] = JMap (AList.update (uuid x) (JNum 0) sm)"
    by blast
  from Cons.IH[OF en1 v1 g1] obtain s2 sm2 where
    u: "unmarkAll w s1 xs = Inr s2"
    and en2: "truthy (getAdEnabledValue w s2)" and v2: "validateState s2 = Inr s2"
    and g2: "getIn s2 [''userModel'', ''adsUUIDSeen''] = JMap sm2"
    and m2: "\<forall>u. map_get sm2 u = (if u \<in> uuid ` set xs then JNum 0
                  else map_get (AList.update (uuid x) (JNum 0) sm) u)"
    by blast
  have "\<forall>u. map_get sm2 u = (if u \<in> uuid ` set (x # xs) then JNum 0 else map_get sm u)"
    using m2 by (auto simp: map_get_def update_conv')
  then show ?case using r u en2 v2 g2 by (simp add: andThen_def del: getIn.simps)
qed

lemma getAdUUIDSeen_map:
  "getIn state [''userModel'', ''adsUUIDSeen''] = JMap sm \<Longrightarrow> getAdUUIDSeen state = sm"
  by (simp add: getAdUUIDSeen_def js_or_def del: getIn.simps)

lemma getAdUUIDSeen_nonempty:
  "getAdUUIDSeen state \<noteq> [] \<Longrightarrow>
     getIn state [''userModel'', ''adsUUIDSeen''] = JMap (getAdUUIDSeen state)"
  by (cases "getIn state [''userModel'', ''adsUUIDSeen'']")
     (auto simp: getAdUUIDSeen_def js_or_def simp del: getIn.simps split: if_splits)

lemma filter_all: "(\<forall>x \<in> set xs. P x) \<Longrightarrow> filter P xs = xs \<and> filter (\<lambda>x. \<not> P x) xs = []"
  by (induction xs) auto

lemma showFromPool_empty:
  "showFromPool w c state windowId category hierarchy winnerOverTime [] =
     Inr (state, emit (notServed [(''reason'', JStr ''no ad for winnerOverTime''),
                                  (''category'', JStr category),
                                  (''winnerOverTime'',
                                     case winnerOverTime of Some n \<Rightarrow> JStr n | None \<Rightarrow> JUndefined),
                                  (''arbitraryKey'', JUndefined)]) c)"
  by (simp add: showFromPool_def randomKey_def Let_def)

text \<open>
  C5. With the category matched to the list \<open>result\<close>: when some ad is not seen, the ad
  is drawn from the ads of the list that are not seen, in the state given; when none is,
  the round-robin entry is logged, every ad of the list is marked not seen (value 0) and
  the ad is drawn from the whole list. When the list is empty nothing is marked and the
  cycle ends, after the round-robin entry, with the entry for no ad and the state given.
\<close>

theorem round_robin_reset:
  assumes match: "hierarchyLoop (categories feed) (split CHR ''-'' category)
                    [0..<length (split CHR ''-'' category)] (None, None) = (winner, Some result)"
  shows "(filter (\<lambda>x. \<not> truthy (map_get (getAdUUIDSeen state) (uuid x))) result \<noteq> [] \<longrightarrow>
            serveFromCategory w c state windowId feed category =
              showFromPool w c state windowId category (split CHR ''-'' category) winner
                (filter (\<lambda>x. \<not> truthy (map_get (getAdUUIDSeen state) (uuid x))) result))
       \<and> (filter (\<lambda>x. \<not> truthy (map_get (getAdUUIDSeen state) (uuid x))) result = [] \<longrightarrow>
            serveFromCategory w c state windowId feed category =
              andThen (unmarkAll w state result) (\<lambda>state1.
                showFromPool w (emit (roundRobinLog category result) c) state1 windowId category
                  (split CHR ''-'' category) winner result))
       \<and> (filter (\<lambda>x. \<not> truthy (map_get (getAdUUIDSeen state) (uuid x))) result = [] \<longrightarrow>
          result \<noteq> [] \<longrightarrow> truthy (getAdEnabledValue w state) \<longrightarrow>
          validateState state = Inr state \<longrightarrow>
            (\<exists>state1. unmarkAll w state result = Inr state1 \<and>
               (\<forall>x \<in> set result. map_get (getAdUUIDSeen state1) (uuid x) = JNum 0) \<and>
               serveFromCategory w c state windowId feed category =
                 showFromPool w (emit (roundRobinLog category result) c) state1 windowId category
                   (split CHR ''-'' category) winner result))
       \<and> (result = [] \<longrightarrow>
            serveFromCategory w c state windowId feed category =
              Inr (state,
                   emit (notServed [(''reason'', JStr ''no ad for winnerOverTime''),
                                    (''category'', JStr category),
                                    (''winnerOverTime'',
                                       case winner of Some n \<Rightarrow> JStr n | None \<Rightarrow> JUndefined),
                                    (''arbitraryKey'', JUndefined)])
                     (emit (roundRobinLog category []) c)) \<and>
            (reachesCatalog w c state feed category \<longrightarrow>
               checkReadyAdServe w c state windowId =
                 Inr (state,
                      emit (notServed [(''reason'', JStr ''no ad for winnerOverTime''),
                                       (''category'', JStr category),
                                       (''winnerOverTime'',
                                          case winner of Some n \<Rightarrow> JStr n | None \<Rightarrow> JUndefined),
                                       (''arbitraryKey'', JUndefined)])
                        (emit (roundRobinLog category []) c))))"
proof -
  let ?unseen = "filter (\<lambda>x. \<not> truthy (map_get (getAdUUIDSeen state) (uuid x))) result"
  let ?h = "split CHR ''-'' category"
  have some: "serveFromCategory w c state windowId feed category =
              showFromPool w c state windowId category ?h winner ?unseen" if "?unseen \<noteq> []"
    using match that by (simp add: serveFromCategory_def roundRobin_def Let_def andThen_def)
  have seen_all: "filter (\<lambda>x. truthy (map_get (getAdUUIDSeen state) (uuid x))) result = result"
    if "?unseen = []"
    using that by (induction result) (auto split: if_splits)
  have reset: "serveFromCategory w c state windowId feed category =
              andThen (unmarkAll w state result) (\<lambda>state1.
                showFromPool w (emit (roundRobinLog category result) c) state1 windowId category
                  ?h winner result)" if "?unseen = []"
    using match that seen_all[OF that]
    by (simp add: serveFromCategory_def roundRobin_def Let_def roundRobinLog_def)
  have unmark: "\<exists>state1. unmarkAll w state result = Inr state1 \<and>
               (\<forall>x \<in> set result. map_get (getAdUUIDSeen state1) (uuid x) = JNum 0) \<and>
               serveFromCategory w c state windowId feed category =
                 showFromPool w (emit (roundRobinLog category result) c) state1 windowId category
                   ?h winner result"
    if all: "?unseen = []" and ne: "result \<noteq> []"
      and en: "truthy (getAdEnabledValue w state)" and valid: "validateState state = Inr state"
  proof -
    from ne obtain x where "x \<in> set result" by (cases result) auto
    with all have "truthy (map_get (getAdUUIDSeen state) (uuid x))"
      by (auto simp: filter_empty_conv)
    then have "getAdUUIDSeen state \<noteq> []" by (auto simp: map_get_def)
    from unmarkAll_ok[OF en valid getAdUUIDSeen_nonempty[OF this], of result]
    obtain state1 sm1 where u: "unmarkAll w state result = Inr state1"
      and g: "getIn state1 [''userModel'', ''adsUUIDSeen''] = JMap sm1"
      and z: "\<forall>u. map_get sm1 u = (if u \<in> uuid ` set result then JNum 0
                 else map_get (getAdUUIDSeen state) u)"
      by blast
    have "\<forall>x \<in> set result. map_get (getAdUUIDSeen state1) (uuid x) = JNum 0"
      using z getAdUUIDSeen_map[OF g] by auto
    then show ?thesis using u reset[OF all] by (simp add: andThen_def)
  qed
  have empty: "serveFromCategory w c state windowId feed category =
              Inr (state,
                   emit (notServed [(''reason'', JStr ''no ad for winnerOverTime''),
                                    (''category'', JStr category),
                                    (''winnerOverTime'',
                                       case winner of Some n \<Rightarrow> JStr n | None \<Rightarrow> JUndefined),
                                    (''arbitraryKey'', JUndefined)])
                     (emit (roundRobinLog category []) c))" if "result = []"
    using reset that by (simp add: andThen_def showFromPool_empty)
  show ?thesis
    using some reset unmark empty checkReadyAdServe_reaches[of w c state feed category windowId]
    by (intro conjI impI) simp_all
qed


text \<open>
  Both ads of the \<open>sports\<close> bucket seen: both are marked not seen and the draw is from
  both. An empty bucket: not served, the state is the one given.
\<close>

theorem round_robin_reset_witness:
  "hierarchyLoop (categories (feedOf ''sports'' [adA, adB]))
     (split CHR ''-'' ''sports-rugby-worldcup'')
     [0..<length (split CHR ''-'' ''sports-rugby-worldcup'')] (None, None)
     = (Some ''sports'', Some [adA, adB]) \<and>
   filter (\<lambda>x. \<not> truthy (map_get (getAdUUIDSeen (seenState bothSeen)) (uuid x))) [adA, adB] = [] \<and>
   truthy (getAdEnabledValue world0 (seenState bothSeen)) \<and>
   validateState (seenState bothSeen) = Inr (seenState bothSeen) \<and>
   unmarkAll world0 (seenState bothSeen) [adA, adB] = Inr (seenState noneSeen) \<and>
   serveFromCategory world0 (ctxWith (feedOf ''sports'' [adA, adB])) (seenState bothSeen) JNull
       (feedOf ''sports'' [adA, adB]) ''sports-rugby-worldcup''
     = showFromPool world0
         (emit (roundRobinLog ''sports-rugby-worldcup'' [adA, adB])
            (ctxWith (feedOf ''sports'' [adA, adB])))
         (seenState noneSeen) JNull ''sports-rugby-worldcup''
         (split CHR ''-'' ''sports-rugby-worldcup'') (Some ''sports'') [adA, adB] \<and>
   hierarchyLoop (categories (feedOf ''sports'' []))
     (split CHR ''-'' ''sports-rugby-worldcup'')
     [0..<length (split CHR ''-'' ''sports-rugby-worldcup'')] (None, None)
     = (Some ''sports'', Some []) \<and>
   reachesCatalog world0 (ctxWith (feedOf ''sports'' [])) (seenState bothSeen)
     (feedOf ''sports'' []) ''sports-rugby-worldcup'' \<and>
   checkReadyAdServe world0 (ctxWith (feedOf ''sports'' [])) (seenState bothSeen) JNull
     = Inr (seenState bothSeen,
            emit (notServed [(''reason'', JStr ''no ad for winnerOverTime''),
                             (''category'', JStr ''sports-rugby-worldcup''),
                             (''winnerOverTime'', JStr ''sports''),
                             (''arbitraryKey'', JUndefined)])
              (emit (roundRobinLog ''sports-rugby-worldcup'' [])
                 (ctxWith (feedOf ''sports'' []))))"
proof -
  let ?cat = "''sports-rugby-worldcup''"
  let ?h = "split CHR ''-'' ?cat"
  let ?feed = "feedOf ''sports'' [adA, adB]"
  let ?none = "feedOf ''sports'' []"
  have m: "hierarchyLoop (categories (feedOf ''sports'' ads)) ?h [0..<length ?h] (None, None)
             = (Some ''sports'', Some ads)" for ads
    by (simp add: feedOf_def upt_rec)
  have f: "filter (\<lambda>x. \<not> truthy (map_get (getAdUUIDSeen (seenState bothSeen)) (uuid x)))
             [adA, adB] = []"
    by (simp add: serve_example_defs getAdUUIDSeen_def js_or_def map_get_def)
  have en: "truthy (getAdEnabledValue world0 (seenState bothSeen))"
    by (simp add: serve_example_defs getAdEnabledValue_def)
  have valid: "validateState (seenState bothSeen) = Inr (seenState bothSeen)"
    by (simp add: serve_example_defs validateState_def makeImmutable_def)
  have u: "unmarkAll world0 (seenState bothSeen) [adA, adB] = Inr (seenState noneSeen)"
    by (simp add: serve_example_defs recordAdUUIDSeen_def getAdEnabledValue_def js_or_def
        andThen_def setIn_def Let_def)
  have r: "reachesCatalog world0 (ctxWith ?none) (seenState bothSeen) ?none ?cat"
    by (simp add: serve_example_defs reaches_eval_defs)
  note full = round_robin_reset[OF m[of "[adA, adB]"], where state="seenState bothSeen"
      and w=world0 and c="ctxWith ?feed" and windowId=JNull]
  note empty = round_robin_reset[OF m[of "[]"], where state="seenState bothSeen"
      and w=world0 and c="ctxWith ?none" and windowId=JNull]
  from full f en valid u have s: "serveFromCategory world0 (ctxWith ?feed) (seenState bothSeen)
       JNull ?feed ?cat
     = showFromPool world0 (emit (roundRobinLog ?cat [adA, adB]) (ctxWith ?feed))
         (seenState noneSeen) JNull ?cat ?h (Some ''sports'') [adA, adB]"
    by (simp add: andThen_def)
  from empty r have e: "checkReadyAdServe world0 (ctxWith ?none) (seenState bothSeen) JNull
     = Inr (seenState bothSeen,
            emit (notServed [(''reason'', JStr ''no ad for winnerOverTime''),
                             (''category'', JStr ?cat),
                             (''winnerOverTime'', JStr ''sports''),
                             (''arbitraryKey'', JUndefined)])
              (emit (roundRobinLog ?cat []) (ctxWith ?none)))"
    by simp
  from m[of "[adA, adB]"] f en valid u s m[of "[]"] r e show ?thesis by (intro conjI)
qed

subsection \<open>Upload of the reporting queue\<close>

lemma newerRows_maps:
  "\<forall>e \<in> set rows. isMap e \<Longrightarrow>
     newerRows rows stamp = Inr (filter (\<lambda>e. js_gt (getIn e [''stamp'']) stamp) rows)"
proof (induction rows)
  case Nil
  then show ?case by simp
next
  case (Cons e rows)
  then obtain m where "e = JMap m" by (cases e) auto
  with Cons show ?case by (simp add: andThen_def map_get_def split: option.splits)
qed

lemma map_get_toJS: "map_get (map (map_prod id toJS) m) k = toJS (map_get m k)"
  by (induction m) (auto simp: map_get_def)

lemma last_map: "rows \<noteq> [] \<Longrightarrow> last (map f rows) = f (last rows)"
  by (induction rows) auto

text \<open>
  The callback of the upload dispatches \<open>uploadLogs\<close> with the day interval and the
  watermark on success; on a failure it reads the status of the response: when that read
  succeeds, it dispatches with the hour interval, and with no watermark unless the status
  is 400; when the read throws, the callback throws and dispatches nothing.
  \<open>uploadLogs\<close> with a truthy watermark leaves in the queue the rows whose stamp is
  greater than the watermark, and with no watermark leaves the state as it is; when the
  timer is armed it is armed again with the interval it was given. The watermark of an
  upload is the stamp of the last row of the queue.
\<close>

lemma upload_outcomes:
  "(\<not> truthy err \<longrightarrow>
      collectActivityDone w c path stamp err response =
        Inr (emit (UserModelUploadLogs stamp (oneDay w)) c))
   \<and> (truthy err \<longrightarrow> js_prop response ''statusCode'' = Inr code \<longrightarrow> code \<noteq> JNum 400 \<longrightarrow>
      collectActivityDone w c path stamp err response =
        Inr (emit (UserModelUploadLogs JNull (oneHour w)) (emit (uploadFailedLog w path err) c)))
   \<and> (truthy err \<longrightarrow> js_prop response ''statusCode'' = Inr (JNum 400) \<longrightarrow>
      collectActivityDone w c path stamp err response =
        Inr (emit (UserModelUploadLogs stamp (oneHour w)) (emit (uploadFailedLog w path err) c)))
   \<and> (truthy err \<longrightarrow> js_prop response ''statusCode'' = Inl e \<longrightarrow>
      collectActivityDone w c path stamp err response = Inl e)
   \<and> (\<not> noop w c state \<longrightarrow> validateState state = Inr state \<longrightarrow> truthy stamp \<longrightarrow>
      getReportingEventQueue state = JList rows \<longrightarrow> (\<forall>e \<in> set rows. isMap e) \<longrightarrow>
        (\<exists>state' c'. uploadLogs w c state stamp retryIn = Inr (state', c') \<and>
           getReportingEventQueue state' =
             JList (filter (\<lambda>e. js_gt (getIn e [''stamp'']) stamp) rows) \<and>
           (collectActivityId c \<noteq> None \<longrightarrow>
              collectActivityId c' = Some (Timeout (Some retryIn)) \<and>
              SetTimeout (Some retryIn) \<in> set (effects c'))))
   \<and> (\<not> noop w c state \<longrightarrow> \<not> truthy stamp \<longrightarrow>
        (\<exists>c'. uploadLogs w c state stamp retryIn = Inr (state, c') \<and>
           (collectActivityId c \<noteq> None \<longrightarrow>
              collectActivityId c' = Some (Timeout (Some retryIn)) \<and>
              SetTimeout (Some retryIn) \<in> set (effects c'))))
   \<and> (\<not> noop w c state \<longrightarrow> validateState state = Inr state \<longrightarrow>
      getReportingEventQueue state = JList rows \<longrightarrow> rows \<noteq> [] \<longrightarrow> last rows = JMap m \<longrightarrow>
        (\<exists>state' payload. collectActivity w c state =
           Inr (state', emit (Roundtrip ''PUT'' (''/v1/reports/'' @ toStringJS (getAdUUID state))
                                payload (toJS (map_get m ''stamp''))) c)))"
proof (intro conjI impI)
  assume "\<not> truthy err"
  then show "collectActivityDone w c path stamp err response =
        Inr (emit (UserModelUploadLogs stamp (oneDay w)) c)"
    by (simp add: collectActivityDone_def andThen_def)
next
  assume "truthy err" "js_prop response ''statusCode'' = Inr code" "code \<noteq> JNum 400"
  moreover from \<open>code \<noteq> JNum 400\<close> have "\<not> strict_eq code (JNum 400)" by (cases code) auto
  ultimately show "collectActivityDone w c path stamp err response =
        Inr (emit (UserModelUploadLogs JNull (oneHour w)) (emit (uploadFailedLog w path err) c))"
    by (simp add: collectActivityDone_def andThen_def Let_def uploadFailedLog_def)
next
  assume "truthy err" "js_prop response ''statusCode'' = Inr (JNum 400)"
  then show "collectActivityDone w c path stamp err response =
        Inr (emit (UserModelUploadLogs stamp (oneHour w)) (emit (uploadFailedLog w path err) c))"
    by (simp add: collectActivityDone_def andThen_def Let_def uploadFailedLog_def)
next
  assume "truthy err" "js_prop response ''statusCode'' = Inl e"
  then show "collectActivityDone w c path stamp err response = Inl e"
    by (simp add: collectActivityDone_def andThen_def Let_def)
next
  assume ready: "\<not> noop w c state" and valid: "validateState state = Inr state"
    and st: "truthy stamp" and q: "getReportingEventQueue state = JList rows"
    and maps: "\<forall>e \<in> set rows. isMap e"
  have en: "truthy (getAdEnabledValue w state)" using ready by (simp add: noop_def)
  from validateState_shape[OF valid] obtain mm um where
    s: "state = JMap mm" and um: "map_of mm ''userModel'' = Some (JMap um)" by blast
  let ?data = "filter (\<lambda>e. js_gt (getIn e [''stamp'']) stamp) rows"
  let ?s' = "JMap (AList.update ''userModel''
               (JMap (AList.update ''reportingEventQueue'' (JList ?data) um)) mm)"
  have set: "setReportingEventQueue w state (JList ?data) = Inr ?s'"
    using en unfolding s by (simp add: setReportingEventQueue_def setIn_userModel_key[OF um])
  have q': "getReportingEventQueue ?s' = JList ?data"
    by (simp add: getReportingEventQueue_def js_or_def getIn_after_set del: getIn.simps)
  show "\<exists>state' c'. uploadLogs w c state stamp retryIn = Inr (state', c') \<and>
           getReportingEventQueue state' = JList ?data \<and>
           (collectActivityId c \<noteq> None \<longrightarrow>
              collectActivityId c' = Some (Timeout (Some retryIn)) \<and>
              SetTimeout (Some retryIn) \<in> set (effects c'))"
    using ready st q set q' newerRows_maps[OF maps, of stamp]
    by (cases "collectActivityId c")
       (simp_all add: uploadLogs_def andThen_def Let_def emit_def del: getIn.simps)
next
  assume ready: "\<not> noop w c state" and st: "\<not> truthy stamp"
  show "\<exists>c'. uploadLogs w c state stamp retryIn = Inr (state, c') \<and>
           (collectActivityId c \<noteq> None \<longrightarrow>
              collectActivityId c' = Some (Timeout (Some retryIn)) \<and>
              SetTimeout (Some retryIn) \<in> set (effects c'))"
    using ready st
    by (cases "collectActivityId c")
       (simp_all add: uploadLogs_def andThen_def Let_def emit_def del: getIn.simps)
next
  assume ready: "\<not> noop w c state" and valid: "validateState state = Inr state"
    and q: "getReportingEventQueue state = JList rows" and ne: "rows \<noteq> []"
    and l: "last rows = JMap m"
  have en: "truthy (getAdEnabledValue w state)" using ready by (simp add: noop_def)
  from validateState_shape[OF valid] obtain mm um where
    s: "state = JMap mm" and um: "map_of mm ''userModel'' = Some (JMap um)" by blast
  have set: "\<exists>s'. setReportingEventQueue w state v = Inr s'" for v
    using en unfolding s by (simp add: setReportingEventQueue_def setIn_userModel_key[OF um])
  let ?m = "map (map_prod id toJS) m"
  have mark: "lastRow (map toJS rows) = JObject ?m"
    using ne l by (simp add: lastRow_def last_map)
  show "\<exists>state' payload. collectActivity w c state =
           Inr (state', emit (Roundtrip ''PUT'' (''/v1/reports/'' @ toStringJS (getAdUUID state))
                                payload (toJS (map_get m ''stamp''))) c)"
  proof (cases "truthy (map_get ?m ''uuid'')")
    case True
    then show ?thesis
      using ready q mark
      by (simp add: collectActivity_def andThen_def Let_def im_toJS_def map_get_toJS
          del: getIn.simps) blast
  next
    case False
    from set[of "fromJS (JArray (butlast (map toJS rows) @
                   [JObject (AList.update ''uuid'' (JStr (uuidv4 w)) ?m)]))"]
    obtain s' where "setReportingEventQueue w state
        (fromJS (JArray (butlast (map toJS rows) @
                   [JObject (AList.update ''uuid'' (JStr (uuidv4 w)) ?m)]))) = Inr s'"
      by blast
    then show ?thesis
      using False ready q mark
      by (simp add: collectActivity_def andThen_def Let_def im_toJS_def map_get_toJS
          del: getIn.simps fromJS.simps) blast
  qed
qed

lemmas upload_example_defs = world0_def world1_def ctx0_def timerCtx_def queueState_def
  focusRow_def blurRow_def stamp0_def stamp1_def

lemmas upload_eval_defs = uploadLogs_def collectActivityDone_def noop_def getAdEnabledValue_def
  getReportingEventQueue_def setReportingEventQueue_def getAdUUID_def js_or_def andThen_def
  setIn_def map_get_def emit_def oneDay_def oneHour_def validateState_def makeImmutable_def
  Let_def uploadFailedLog_def

text \<open>
  C8. An upload that fails without a response, as a refused connection does: the callback
  is called with the error and with \<open>undefined\<close> (or \<open>null\<close>) for the response, reads
  \<open>response.statusCode\<close> and throws a TypeError; no \<open>uploadLogs\<close> is dispatched, so no
  next attempt is scheduled at the hour interval. When a response comes with the failure
  the outcomes are as described: a 500 clears the watermark and the follow-up, armed at the
  hour, leaves both rows of the queue; a 400 keeps the watermark; a success keeps it, and
  the follow-up, armed at the day, leaves only the row newer than the watermark.
\<close>

theorem upload_failure_without_response:
  "collectActivityDone world1 timerCtx ''/v1/reports/x'' (JStr stamp0)
       (JStr ''Error: connect ECONNREFUSED'') JUndefined = Inl TypeError \<and>
   collectActivityDone world1 timerCtx ''/v1/reports/x'' (JStr stamp0)
       (JStr ''Error: connect ECONNREFUSED'') JNull = Inl TypeError \<and>
   collectActivityDone world1 timerCtx ''/v1/reports/x'' (JStr stamp0) (JStr ''HTTP response 500'')
       (JObject [(''statusCode'', JNum 500)])
     = Inr (emit (UserModelUploadLogs JNull 3600000)
              (emit (uploadFailedLog world1 ''/v1/reports/x'' (JStr ''HTTP response 500''))
                 timerCtx)) \<and>
   (\<exists>c'. uploadLogs world1 timerCtx (queueState [focusRow stamp0, blurRow stamp1])
            JNull 3600000 = Inr (queueState [focusRow stamp0, blurRow stamp1], c') \<and>
      collectActivityId c' = Some (Timeout (Some 3600000))) \<and>
   collectActivityDone world1 timerCtx ''/v1/reports/x'' (JStr stamp0) (JStr ''HTTP response 400'')
       (JObject [(''statusCode'', JNum 400)])
     = Inr (emit (UserModelUploadLogs (JStr stamp0) 3600000)
              (emit (uploadFailedLog world1 ''/v1/reports/x'' (JStr ''HTTP response 400''))
                 timerCtx)) \<and>
   collectActivityDone world1 timerCtx ''/v1/reports/x'' (JStr stamp0) JNull JNull
     = Inr (emit (UserModelUploadLogs (JStr stamp0) 86400000) timerCtx) \<and>
   (\<exists>c'. uploadLogs world1 timerCtx (queueState [focusRow stamp0, blurRow stamp1])
            (JStr stamp0) 86400000 = Inr (queueState [blurRow stamp1], c') \<and>
      collectActivityId c' = Some (Timeout (Some 86400000)))"
proof -
  let ?q = "queueState [focusRow stamp0, blurRow stamp1]"
  let ?path = "''/v1/reports/x''"
  let ?refused = "JStr ''Error: connect ECONNREFUSED''"
  have t: "truthy ?refused"
    by simp
  have day: "oneDay world1 = 86400000" and hour: "oneHour world1 = 3600000"
    by (simp_all add: oneDay_def oneHour_def world0_def world1_def)
  have pu: "js_prop JUndefined ''statusCode'' = Inl TypeError"
    by simp
  have pn: "js_prop JNull ''statusCode'' = Inl TypeError"
    by simp
  from upload_outcomes[where w=world1 and c=timerCtx and path="?path" and stamp="JStr stamp0"
      and err="?refused" and response=JUndefined and e=TypeError and code=JNull
      and state="?q" and rows="[]" and m="[]" and retryIn=0] t pu
  have u: "collectActivityDone world1 timerCtx ?path (JStr stamp0) ?refused JUndefined
             = Inl TypeError"
    by blast
  from upload_outcomes[where w=world1 and c=timerCtx and path="?path" and stamp="JStr stamp0"
      and err="?refused" and response=JNull and e=TypeError and code=JNull
      and state="?q" and rows="[]" and m="[]" and retryIn=0] t pn
  have n: "collectActivityDone world1 timerCtx ?path (JStr stamp0) ?refused JNull
             = Inl TypeError"
    by blast
  have e500: "collectActivityDone world1 timerCtx ?path (JStr stamp0)
       (JStr ''HTTP response 500'') (JObject [(''statusCode'', JNum 500)])
     = Inr (emit (UserModelUploadLogs JNull 3600000)
              (emit (uploadFailedLog world1 ?path (JStr ''HTTP response 500'')) timerCtx))"
    by (simp add: world0_def world1_def upload_eval_defs)
  have e400: "collectActivityDone world1 timerCtx ?path (JStr stamp0)
       (JStr ''HTTP response 400'') (JObject [(''statusCode'', JNum 400)])
     = Inr (emit (UserModelUploadLogs (JStr stamp0) 3600000)
              (emit (uploadFailedLog world1 ?path (JStr ''HTTP response 400'')) timerCtx))"
    by (simp add: world0_def world1_def upload_eval_defs)
  have ok: "collectActivityDone world1 timerCtx ?path (JStr stamp0) JNull JNull
     = Inr (emit (UserModelUploadLogs (JStr stamp0) 86400000) timerCtx)"
    by (simp add: world0_def world1_def upload_eval_defs)
  have keep: "\<exists>c'. uploadLogs world1 timerCtx ?q JNull 3600000 = Inr (?q, c') \<and>
               collectActivityId c' = Some (Timeout (Some 3600000))"
    by (simp add: upload_example_defs upload_eval_defs)
  have prune: "\<exists>c'. uploadLogs world1 timerCtx ?q (JStr stamp0) 86400000
                 = Inr (queueState [blurRow stamp1], c') \<and>
               collectActivityId c' = Some (Timeout (Some 86400000))"
    by (simp add: upload_example_defs upload_eval_defs)
  from u n e500 keep e400 ok prune show ?thesis by (intro conjI)
qed


end
